theory Spec2Isabelle
  imports Main
begin

section \<open>The transaction retry loop of \<open>Driver.InitPayment\<close> (fritzpay/init.go)\<close>

text \<open>
  \<open>InitPayment\<close> talks to the payment database inside a transaction and jumps back to
  the label \<open>beginTx\<close> when the database reports a lock timeout or a deadlock.  What the
  database answers is outside the program, so each pass through the label reads its
  answers from an \<open>attempt\<close> record; the answers of the \<open>i\<close>-th pass are \<open>db i\<close>.
\<close>

datatype lookup_err = LookupNil | ErrPaymentNotFound | LookupOther

datatype tx_err = TxNil | ErrPaymentTransactionNotFound | TxOther

datatype set_err = SetNil | ErrDBLockTimeout | SetOther

text \<open>The error of \<open>tx.Commit()\<close>: nil, a \<open>*mysql.MySQLError\<close> with its \<open>Number\<close>, or another error.\<close>

datatype commit_err = CommitNil | MySQLError nat | CommitOther

record attempt =
  beginErr :: bool \<comment> \<open>\<open>PaymentDB().Begin()\<close> returned an error\<close>
  lookupErr :: lookup_err \<comment> \<open>error of \<open>PaymentByPaymentIDTx\<close>\<close>
  sameMethodKey :: bool \<comment> \<open>\<open>fritzpayP.MethodKey == method.MethodKey\<close>\<close>
  insertErr :: bool \<comment> \<open>\<open>InsertPaymentTx\<close> returned an error\<close>
  txErr :: tx_err \<comment> \<open>error of \<open>paymentService.PaymentTransaction\<close>\<close>
  txPending :: bool \<comment> \<open>\<open>currentStatus.Status == payment.PaymentStatusPending\<close>\<close>
  setErr :: set_err \<comment> \<open>error of \<open>paymentService.SetPaymentTransaction\<close>\<close>
  commitErr :: commit_err \<comment> \<open>error of \<open>tx.Commit()\<close>\<close>

text \<open>What \<open>InitPayment\<close> returns: the handler, or one of its errors.\<close>

datatype init_result = InitHandler | ErrDB | ErrConflict | ErrDisabledMethod

text \<open>
  One pass through the code between \<open>beginTx\<close> and the end of the function ends either in
  a \<open>goto beginTx\<close> or in a \<open>return\<close>.  The flag of \<open>Return\<close> says whether the deferred
  function rolls the transaction back (\<open>tx != nil && !commit\<close>).
\<close>

datatype step = GotoBeginTx | Return init_result bool

text \<open>Lines 86 to 121: the payment transaction is read and set, then the commit.\<close>

definition commitTx :: "attempt \<Rightarrow> step" where
  "commitTx a =
     (case commitErr a of
        CommitNil \<Rightarrow> Return InitHandler False
      | MySQLError n \<Rightarrow> if n = 1213 then GotoBeginTx else Return ErrDB False
      | CommitOther \<Rightarrow> Return ErrDB False)"

definition setPaymentTx :: "attempt \<Rightarrow> step" where
  "setPaymentTx a =
     (if txErr a = TxOther then Return ErrDB True
      else if \<not> txPending a then
        (case setErr a of
           SetNil \<Rightarrow> commitTx a
         | ErrDBLockTimeout \<Rightarrow> GotoBeginTx
         | SetOther \<Rightarrow> Return ErrDB True)
      else commitTx a)"

text \<open>Lines 53 to 85: begin, look the payment up, create it when it is not there.\<close>

definition txBody :: "attempt \<Rightarrow> step" where
  "txBody a =
     (if beginErr a then Return ErrDB False
      else case lookupErr a of
        LookupOther \<Rightarrow> Return ErrDB True
      | LookupNil \<Rightarrow>
          if \<not> sameMethodKey a then Return ErrConflict True else setPaymentTx a
      | ErrPaymentNotFound \<Rightarrow>
          if insertErr a then Return ErrDB True else setPaymentTx a)"

text \<open>
  The outcome of the whole loop: the result, the rollback flag, and how many times control
  passed the label \<open>beginTx\<close>.
\<close>

record outcome =
  result :: init_result
  rollback :: bool
  passes :: nat

text \<open>
  The loop, lines 46 to 121.  \<open>retries\<close> and \<open>maxRetries\<close> are Go \<open>int\<close>s; \<open>retries\<close> is
  incremented only on a path that passed the test \<open>retries >= maxRetries\<close> with the answer
  no, so it never exceeds \<open>maxRetries\<close> and cannot wrap.
\<close>

function txLoop :: "(nat \<Rightarrow> attempt) \<Rightarrow> int \<Rightarrow> int \<Rightarrow> outcome" where
  "txLoop db maxRetries retries =
     (if retries \<ge> maxRetries
      then \<lparr>result = ErrDB, rollback = False, passes = 1\<rparr>
      else case txBody (db (nat retries)) of
        Return r rb \<Rightarrow> \<lparr>result = r, rollback = rb, passes = 1\<rparr>
      | GotoBeginTx \<Rightarrow>
          (let r = txLoop db maxRetries (retries + 1) in r\<lparr>passes := Suc (passes r)\<rparr>))"
  by pat_completeness auto
termination
  by (relation "measure (\<lambda>(db, maxRetries, retries). nat (maxRetries - retries))") auto

declare txLoop.simps [simp del]

text \<open>Lines 28 to 45: a disabled method is refused before the loop; \<open>retries\<close> starts at 0.\<close>

definition InitPayment :: "bool \<Rightarrow> int \<Rightarrow> (nat \<Rightarrow> attempt) \<Rightarrow> outcome" where
  "InitPayment disabled maxRetries db =
     (if disabled then \<lparr>result = ErrDisabledMethod, rollback = False, passes = 0\<rparr>
      else txLoop db maxRetries 0)"

text \<open>A database that answers every \<open>SetPaymentTransaction\<close> with the lock timeout.\<close>

definition lockedAttempt :: attempt where
  "lockedAttempt = \<lparr>beginErr = False, lookupErr = LookupNil, sameMethodKey = True,
     insertErr = False, txErr = ErrPaymentTransactionNotFound, txPending = False,
     setErr = ErrDBLockTimeout, commitErr = CommitNil\<rparr>"

definition lockedDB :: "nat \<Rightarrow> attempt" where
  "lockedDB i = lockedAttempt"

section \<open>The admin API's authorization handlers (api/v1/auth.go)\<close>

subsection \<open>What the handlers act on\<close>

text \<open>
  \<open>time.Time\<close> values are instants on one time line and \<open>time.Duration\<close>s distances between
  them; \<open>Before\<close> is \<open><\<close> and \<open>Add\<close> is \<open>+\<close>.
\<close>

type_synonym time = int

type_synonym payload = "(string \<times> string) list"

datatype level = LvlDebug | LvlInfo | LvlWarn | LvlError | LvlCrit

record cookie =
  cName :: string
  cValue :: string
  cPath :: string
  cExpires :: time
  cHttpOnly :: bool
  cSecure :: bool

text \<open>
  A handler is modelled by the list of effects it has, in program order: its calls to the
  logger, to the response writer, to the clock, to the authorization container and the
  keychain of package \<open>service\<close>, and to the handlers it wraps.
\<close>

datatype event =
    Log level string
  | HeaderSet string string
  | WriteHeader nat
  | SetCookie cookie
  | Write string
  | Sleep int
  | Now
  | NewAuthorization
  | PayloadStore string string
  | Expires time
  | Expiry
  | BinKey
  | Encode
  | Serialized
  | ReadFrom string
  | MatchKey
  | KeyCount
  | Decode
  | SetRequestContextVar payload
  | ServeSuccess
  | ServeFailed
  | SetRequestContext
  | Clear
  | EntryByNameDB
  | CompareHashAndPassword string

datatype error =
    MalformedToken | KeyNotFound | InvalidSignature | InvalidState | EmptyKeychain
  | NotEncoded

text \<open>
  Package \<open>service\<close> (the authorization container and the keychain) is not among the
  sources, so the handlers take its operations as parameters: \<open>'tok\<close> is the type
  \<open>*service.Authorization\<close>, \<open>'key\<close> the type of a key.  A method that mutates its
  receiver and returns an error returns the new receiver or the error.  \<open>payloadOf\<close> and
  \<open>storePayload\<close> read and write the public field \<open>Payload\<close>; \<open>binKey\<close>, \<open>matchKeyOf\<close>
  and \<open>keyCountOf\<close> are the methods \<open>BinKey\<close>, \<open>MatchKey\<close> and \<open>KeyCount\<close> of the keychain
  \<open>a.ctx.Keychain()\<close> at the time of the request.  (The effects above carry the names of
  the methods, so the operations themselves are written in lower case, some with a suffix.)
\<close>

record ('tok, 'key) service =
  newAuthorization :: "'tok"
  payloadOf :: "'tok \<Rightarrow> payload"
  storePayload :: "'tok \<Rightarrow> payload \<Rightarrow> 'tok"
  expires :: "'tok \<Rightarrow> time \<Rightarrow> 'tok"
  expiryOf :: "'tok \<Rightarrow> time"
  encodeWith :: "'tok \<Rightarrow> 'key \<Rightarrow> error + 'tok"
  serializedOf :: "'tok \<Rightarrow> error + string"
  readFromString :: "'tok \<Rightarrow> string \<Rightarrow> error + 'tok"
  decodeWith :: "'tok \<Rightarrow> 'key \<Rightarrow> error + 'tok"
  binKey :: "error + 'key"
  matchKeyOf :: "'tok \<Rightarrow> error + 'key"
  keyCountOf :: nat

text \<open>
  The configuration \<open>a.ctx.Config().API.Cookie\<close> and the package constants that
  auth.go uses and that are declared in files not among the sources.
\<close>

record config =
  AllowCookieAuth :: bool
  HttpOnly :: bool
  Secure :: bool
  AuthCookieName :: string
  ServicePath :: string
  AuthUserIDKey :: string
  systemUserID :: string
  AuthLifetime :: int
  badAuthWaitTime :: int

datatype entry_err = ErrEntryNotFound | EntryOther

datatype bcrypt_err = BcryptNil | ErrMismatchedHashAndPassword | BcryptOther

text \<open>
  What the handlers read from outside the program: the clock, the password entry of the
  payment database, and the library functions \<open>bcrypt.CompareHashAndPassword\<close>,
  \<open>json.Marshal\<close> (of a \<open>GetCredentialsResponse\<close> with the given \<open>Authorization\<close>) and
  \<open>base64.StdEncoding.DecodeString\<close>; \<open>writeFails\<close> says whether \<open>w.Write\<close> returns an error.
\<close>

record world =
  timeNow :: time
  passwordEntry :: "entry_err + string"
  compareHashAndPassword :: "string \<Rightarrow> string \<Rightarrow> bcrypt_err"
  jsonMarshal :: "string \<Rightarrow> error + string"
  decodeString :: "string \<Rightarrow> string option"
  writeFails :: bool

text \<open>The receiver \<open>a *AdminAPI\<close>.\<close>

record ('tok, 'key) AdminAPI =
  cfg :: config
  svc :: "('tok, 'key) service"
  env :: world

datatype cookie_lookup = CookieValue string | ErrNoCookie | CookieOther

text \<open>
  Of a request the handlers read the \<open>Authorization\<close> header (\<open>Header.Get\<close> gives the empty
  string when there is none) and a cookie by name.
\<close>

record request =
  authorizationHeader :: string
  cookieByName :: "string \<Rightarrow> cookie_lookup"

text \<open>
  A wrapped handler sees the request with the context variable \<open>ContextVarAuthKey\<close> either
  unset or holding a payload.
\<close>

type_synonym handler = "payload option \<Rightarrow> event list"

subsection \<open>Library functions on strings\<close>

text \<open>
  \<open>strings.Split(s, sep)\<close> and \<open>strings.SplitN(s, sep, n)\<close> for a separator of one byte and
  \<open>n \<ge> 0\<close>, which is how auth.go calls them: the pieces of \<open>s\<close> between the separators,
  \<open>SplitN\<close> stopping after \<open>n\<close> pieces with the rest of \<open>s\<close> unsplit in the last one.
\<close>

primrec Split :: "string \<Rightarrow> char \<Rightarrow> string list" where
  "Split [] sep = [[]]"
| "Split (c # cs) sep =
     (if c = sep then [] # Split cs sep
      else case Split cs sep of [] \<Rightarrow> [[c]] | p # ps \<Rightarrow> (c # p) # ps)"

fun SplitN :: "string \<Rightarrow> char \<Rightarrow> nat \<Rightarrow> string list" where
  "SplitN s sep 0 = []"
| "SplitN s sep (Suc 0) = [s]"
| "SplitN [] sep (Suc (Suc n)) = [[]]"
| "SplitN (c # cs) sep (Suc (Suc n)) =
     (if c = sep then [] # SplitN cs sep (Suc n)
      else case SplitN cs sep (Suc (Suc n)) of [] \<Rightarrow> [[c]] | p # ps \<Rightarrow> (c # p) # ps)"

text \<open>Indexing a slice panics when the index is out of range.\<close>

datatype panic = IndexOutOfRange nat nat

definition index :: "'a list \<Rightarrow> nat \<Rightarrow> panic + 'a" where
  "index xs i = (if i < length xs then Inr (xs ! i) else Inl (IndexOutOfRange i (length xs)))"

text \<open>
  The map update \<open>m[k] = v\<close> on a payload.  (The map of a new authorization is taken to be
  allocated; a write to a nil map would panic.)
\<close>

fun mapStore :: "payload \<Rightarrow> string \<Rightarrow> string \<Rightarrow> payload" where
  "mapStore [] k v = [(k, v)]"
| "mapStore ((k', v') # m) k v = (if k' = k then (k, v) # m else (k', v') # mapStore m k v)"

subsection \<open>Issuing an authorization\<close>

text \<open>Every failure of \<open>respondWithAuthorization\<close> logs an error and writes status 500.\<close>

definition internalServerError :: "string \<Rightarrow> event list" where
  "internalServerError msg = [Log LvlError msg, WriteHeader 500]"

text \<open>Lines 81 to 102: the JSON response, the cookie, the body.\<close>

definition writeAuthorization ::
  "('tok, 'key) AdminAPI \<Rightarrow> 'tok \<Rightarrow> string \<Rightarrow> event list" where
  "writeAuthorization a auth authorization =
     (case jsonMarshal (env a) authorization of
        Inl err \<Rightarrow> internalServerError ''error encoding JSON respone''
      | Inr jsonResp \<Rightarrow>
          (if AllowCookieAuth (cfg a)
           then [Expiry,
                 SetCookie \<lparr>cName = AuthCookieName (cfg a), cValue = authorization,
                   cPath = ServicePath (cfg a), cExpires = expiryOf (svc a) auth,
                   cHttpOnly = HttpOnly (cfg a), cSecure = Secure (cfg a)\<rparr>]
           else [])
          @ [Write jsonResp]
          @ (if writeFails (env a) then [Log LvlError ''error writing HTTP response''] else []))"

text \<open>Lines 56 to 80.\<close>

definition respondWithAuthorization :: "('tok, 'key) AdminAPI \<Rightarrow> event list" where
  "respondWithAuthorization a =
     (let auth0 = newAuthorization (svc a);
          auth1 = storePayload (svc a) auth0
                    (mapStore (payloadOf (svc a) auth0) (AuthUserIDKey (cfg a)) (systemUserID (cfg a)));
          auth2 = expires (svc a) auth1 (timeNow (env a) + AuthLifetime (cfg a))
      in [NewAuthorization, PayloadStore (AuthUserIDKey (cfg a)) (systemUserID (cfg a)),
          Now, Expires (timeNow (env a) + AuthLifetime (cfg a)), BinKey]
         @ (case binKey (svc a) of
              Inl err \<Rightarrow> internalServerError ''error retrieving key from keychain''
            | Inr key \<Rightarrow>
                Encode #
                (case encodeWith (svc a) auth2 key of
                   Inl err \<Rightarrow> internalServerError ''error encoding authorization''
                 | Inr auth3 \<Rightarrow>
                     Serialized #
                     (case serializedOf (svc a) auth3 of
                        Inl err \<Rightarrow> internalServerError ''error serializing authorization''
                      | Inr authorization \<Rightarrow> writeAuthorization a auth3 authorization))))"

subsection \<open>Password and basic authentication\<close>

definition authenticateSystemPassword :: "('tok, 'key) AdminAPI \<Rightarrow> string \<Rightarrow> event list" where
  "authenticateSystemPassword a pw =
     EntryByNameDB #
     (case passwordEntry (env a) of
        Inl ErrEntryNotFound \<Rightarrow> [Log LvlError ''no password entry'', WriteHeader 500]
      | Inl EntryOther \<Rightarrow> [Log LvlError ''error retrieving password entry'', WriteHeader 500]
      | Inr pwEntry \<Rightarrow>
          CompareHashAndPassword pw #
          (case compareHashAndPassword (env a) pwEntry pw of
             ErrMismatchedHashAndPassword \<Rightarrow> [Sleep (badAuthWaitTime (cfg a)), WriteHeader 401]
           | BcryptOther \<Rightarrow> [Log LvlError ''error checking password'', WriteHeader 500]
           | BcryptNil \<Rightarrow> respondWithAuthorization a))"

definition requestBasicAuth :: "event list" where
  "requestBasicAuth =
     [HeaderSet ''WWW-Authenticate'' (''Basic realm='' @ [CHR 0x22] @ ''Authorization'' @ [CHR 0x22]),
      WriteHeader 401]"

text \<open>
  Lines 128 to 149.  The two index expressions \<open>parts[0]\<close> and \<open>parts[1]\<close> on the result of
  \<open>SplitN\<close> and the \<open>parts[1]\<close> on the result of \<open>Split\<close> are checked, as Go checks them.
\<close>

definition authenticateBasicAuth :: "('tok, 'key) AdminAPI \<Rightarrow> request \<Rightarrow> panic + event list" where
  "authenticateBasicAuth a r =
     (if authorizationHeader r = [] then Inr requestBasicAuth
      else let parts = SplitN (authorizationHeader r) (CHR '' '') 2 in
        case index parts 0 of
          Inl p \<Rightarrow> Inl p
        | Inr scheme \<Rightarrow>
            if scheme \<noteq> ''Basic'' then Inr requestBasicAuth
            else case index parts 1 of
              Inl p \<Rightarrow> Inl p
            | Inr credentials \<Rightarrow>
                (case decodeString (env a) credentials of
                   None \<Rightarrow> Inr requestBasicAuth
                 | Some auth \<Rightarrow>
                     let parts = Split auth (CHR '':'') in
                       if length parts \<noteq> 2 then Inr requestBasicAuth
                       else case index parts 1 of
                         Inl p \<Rightarrow> Inl p
                       | Inr pw \<Rightarrow> Inr (authenticateSystemPassword a pw)))"

subsection \<open>Checking an authorization\<close>

definition serveFailed :: "handler \<Rightarrow> event list" where
  "serveFailed failed = ServeFailed # failed None"

text \<open>Lines 195 to 225: the authorization string is read, checked and decoded.\<close>

definition checkAuthorization ::
  "('tok, 'key) AdminAPI \<Rightarrow> handler \<Rightarrow> handler \<Rightarrow> string \<Rightarrow> event list" where
  "checkAuthorization a success failed authStr =
     NewAuthorization # ReadFrom authStr #
     (case readFromString (svc a) (newAuthorization (svc a)) authStr of
        Inl err \<Rightarrow> Log LvlDebug ''error reading authorization'' # serveFailed failed
      | Inr auth \<Rightarrow>
          Expiry # Now #
          (if expiryOf (svc a) auth < timeNow (env a)
           then Expiry # Log LvlDebug ''authorization expired'' # serveFailed failed
           else MatchKey #
             (case matchKeyOf (svc a) auth of
                Inl err \<Rightarrow>
                  KeyCount # Log LvlDebug ''error retrieving matching key from keychain''
                  # serveFailed failed
              | Inr key \<Rightarrow>
                  Decode #
                  (case decodeWith (svc a) auth key of
                     Inl err \<Rightarrow> Log LvlDebug ''error decoding authorization'' # serveFailed failed
                   | Inr auth' \<Rightarrow>
                       SetRequestContextVar (payloadOf (svc a) auth')
                       # ServeSuccess # success (Some (payloadOf (svc a) auth'))))))"

text \<open>
  Lines 175 to 194: the authorization string comes from the \<open>Authorization\<close> header or,
  when the header is empty and cookie authentication is allowed, from the cookie.
\<close>

datatype auth_source = MissingHeader | CookieError | MissingCookie | AuthStr string

definition authStrOf :: "('tok, 'key) AdminAPI \<Rightarrow> request \<Rightarrow> auth_source" where
  "authStrOf a r =
     (if authorizationHeader r = [] then
        if \<not> AllowCookieAuth (cfg a) then MissingHeader
        else case cookieByName r (AuthCookieName (cfg a)) of
          CookieOther \<Rightarrow> CookieError
        | ErrNoCookie \<Rightarrow> MissingCookie
        | CookieValue v \<Rightarrow> AuthStr v
      else AuthStr (authorizationHeader r))"

text \<open>Lines 171 to 226.\<close>

definition AuthHandler ::
  "('tok, 'key) AdminAPI \<Rightarrow> handler \<Rightarrow> handler \<Rightarrow> request \<Rightarrow> event list" where
  "AuthHandler a success failed r =
     (case authStrOf a r of
        MissingHeader \<Rightarrow> Log LvlDebug ''missing authorization header'' # serveFailed failed
      | CookieError \<Rightarrow> [Log LvlWarn ''error retrieving auth cookie'', WriteHeader 500]
      | MissingCookie \<Rightarrow> serveFailed failed
      | AuthStr authStr \<Rightarrow> checkAuthorization a success failed authStr)"

definition AuthRequiredHandler ::
  "('tok, 'key) AdminAPI \<Rightarrow> handler \<Rightarrow> request \<Rightarrow> event list" where
  "AuthRequiredHandler a parent = AuthHandler a parent (\<lambda>ctx. [WriteHeader 401])"

subsection \<open>The API handler (api/handler.go)\<close>

text \<open>
  \<open>Handler.ServeHTTP\<close> runs the routed handler between \<open>SetRequestContext\<close> and the
  deferred \<open>Clear\<close>; its deferred \<open>recover\<close> turns a panic of the routed handler into a log
  entry of level \<open>Crit\<close> and a normal return.
\<close>

definition ServeHTTP :: "panic + event list \<Rightarrow> event list" where
  "ServeHTTP routed =
     SetRequestContext #
     (case routed of
        Inr effects \<Rightarrow> effects @ [Clear]
      | Inl p \<Rightarrow> [Clear, Log LvlCrit ''panic on serving HTTP''])"

section \<open>The authorization core, modelled from the specification\<close>

text \<open>
  The authorization container and the keychain live in package \<open>service\<close>, which is not
  among the sources.  The definitions of this section follow sections 3 and 4 of the
  specification instead.
\<close>

type_synonym bytes = string

subsection \<open>Signer\<close>

text \<open>
  Modelled from the spec: the Signer (4.1), whose source is missing.  \<open>sign\<close> is a
  parameter, a deterministic function from the secret and the message to the tag;
  \<open>verify\<close> compares the tag of the message with the given one.
\<close>

type_synonym signer = "bytes \<Rightarrow> bytes \<Rightarrow> bytes"

definition verify :: "signer \<Rightarrow> bytes \<Rightarrow> bytes \<Rightarrow> bytes \<Rightarrow> bool" where
  "verify sign secret message tag \<longleftrightarrow> sign secret message = tag"

subsection \<open>Codec\<close>

text \<open>
  Modelled from the spec: the Codec (4.2), whose source is missing.  The specification
  leaves the layout of the serialized form open and asks that it hold key identifier,
  expiry, payload and signature so that parsing separates them without a key.  The layout
  here is four fields separated by dots: the key identifier and the expiry in decimal, the
  payload bytes and the signature in hexadecimal.
\<close>

definition digitChar :: "nat \<Rightarrow> char" where
  "digitChar d = char_of (48 + d)"

definition digitValue :: "char \<Rightarrow> nat option" where
  "digitValue c =
     (let n = of_char c :: nat in if 48 \<le> n \<and> n \<le> 57 then Some (n - 48) else None)"

fun showNat :: "nat \<Rightarrow> string" where
  "showNat n = (if n < 10 then [digitChar n] else showNat (n div 10) @ [digitChar (n mod 10)])"

declare showNat.simps [simp del]

primrec readDigits :: "nat \<Rightarrow> string \<Rightarrow> nat option" where
  "readDigits acc [] = Some acc"
| "readDigits acc (c # cs) =
     (case digitValue c of None \<Rightarrow> None | Some d \<Rightarrow> readDigits (10 * acc + d) cs)"

definition readNat :: "string \<Rightarrow> nat option" where
  "readNat s = (if s = [] then None else readDigits 0 s)"

definition showInt :: "int \<Rightarrow> string" where
  "showInt i = (if i < 0 then CHR ''-'' # showNat (nat (- i)) else showNat (nat i))"

definition readInt :: "string \<Rightarrow> int option" where
  "readInt s =
     (case s of
        [] \<Rightarrow> None
      | c # cs \<Rightarrow>
          if c = CHR ''-'' then map_option (\<lambda>n. - int n) (readNat cs)
          else map_option int (readNat s))"

definition hexDigit :: "nat \<Rightarrow> char" where
  "hexDigit d = (if d < 10 then char_of (48 + d) else char_of (87 + d))"

definition hexValue :: "char \<Rightarrow> nat option" where
  "hexValue c =
     (let n = of_char c :: nat in
        if 48 \<le> n \<and> n \<le> 57 then Some (n - 48)
        else if 97 \<le> n \<and> n \<le> 102 then Some (n - 87)
        else None)"

primrec hexEncode :: "bytes \<Rightarrow> string" where
  "hexEncode [] = []"
| "hexEncode (c # cs) =
     hexDigit (of_char c div 16) # hexDigit (of_char c mod 16) # hexEncode cs"

fun hexDecode :: "string \<Rightarrow> bytes option" where
  "hexDecode [] = Some []"
| "hexDecode [a] = None"
| "hexDecode (a # b # cs) =
     (case (hexValue a, hexValue b) of
        (Some h, Some l) \<Rightarrow> map_option ((#) (char_of (16 * h + l))) (hexDecode cs)
      | _ \<Rightarrow> None)"

text \<open>The characters of the decimal and hexadecimal digits.\<close>

definition fieldChar :: "char \<Rightarrow> bool" where
  "fieldChar c \<longleftrightarrow>
     (let n = of_char c :: nat in 48 \<le> n \<and> n \<le> 57 \<or> 97 \<le> n \<and> n \<le> 102)"

text \<open>
  The payload, an ordered mapping from strings to strings, as bytes: the entries separated
  by commas, each entry the key and the value in hexadecimal with an equals sign between.
\<close>

definition marshalEntry :: "string \<times> string \<Rightarrow> bytes" where
  "marshalEntry kv = hexEncode (fst kv) @ CHR ''='' # hexEncode (snd kv)"

fun marshal :: "payload \<Rightarrow> bytes" where
  "marshal [] = []"
| "marshal [kv] = marshalEntry kv"
| "marshal (kv # kv' # m) = marshalEntry kv @ CHR '','' # marshal (kv' # m)"

definition unmarshalEntry :: "bytes \<Rightarrow> (string \<times> string) option" where
  "unmarshalEntry e =
     (case Split e (CHR ''='') of
        [k, v] \<Rightarrow>
          (case (hexDecode k, hexDecode v) of
             (Some k', Some v') \<Rightarrow> Some (k', v')
           | _ \<Rightarrow> None)
      | _ \<Rightarrow> None)"

definition unmarshal :: "bytes \<Rightarrow> payload option" where
  "unmarshal bs = (if bs = [] then Some [] else those (map unmarshalEntry (Split bs (CHR '',''))))"

text \<open>The canonical bytes over key identifier, expiry and payload bytes, in this order.\<close>

definition canonical :: "nat \<Rightarrow> time \<Rightarrow> bytes \<Rightarrow> bytes" where
  "canonical k e p = showNat k @ CHR ''.'' # showInt e @ CHR ''.'' # hexEncode p"

definition serialize :: "nat \<Rightarrow> time \<Rightarrow> payload \<Rightarrow> bytes \<Rightarrow> string" where
  "serialize k e p sg = canonical k e (marshal p) @ CHR ''.'' # hexEncode sg"

text \<open>
  \<open>parse\<close> needs no key.  It fails on a wrong number of fields, on a field that is not a
  number, and on a field that is not hexadecimal or has lost a digit.
\<close>

definition parse :: "string \<Rightarrow> error + nat \<times> time \<times> bytes \<times> bytes" where
  "parse s =
     (case Split s (CHR ''.'') of
        [k, e, p, sg] \<Rightarrow>
          (case (readNat k, readInt e, hexDecode p, hexDecode sg) of
             (Some k', Some e', Some p', Some sg') \<Rightarrow> Inr (k', e', p', sg')
           | _ \<Rightarrow> Inl MalformedToken)
      | _ \<Rightarrow> Inl MalformedToken)"

subsection \<open>Authorization token\<close>

text \<open>
  Modelled from the spec: the AuthorizationToken (3, 4.3), whose source is missing, with
  its two lifecycles \<open>Empty, Building, Encoded\<close> and \<open>Empty, Parsed, Trusted\<close>.
\<close>

record KeychainKey =
  keyId :: nat
  secret :: bytes
  createdAt :: time
  retired :: bool

datatype token_state = Empty | Building | Encoded | Parsed | Trusted

record token =
  state :: token_state
  payload :: "payload option"
  expiry :: "time option"
  keyID :: "nat option"
  signature :: "bytes option"
  rawPayload :: bytes
  trusted :: bool

definition new :: token where
  "new = \<lparr>state = Empty, payload = None, expiry = None, keyID = None, signature = None,
     rawPayload = [], trusted = False\<rparr>"

definition setPayload :: "token \<Rightarrow> payload \<Rightarrow> error + token" where
  "setPayload t m =
     (if state t = Empty \<or> state t = Building
      then Inr (t\<lparr>payload := Some m, state := Building\<rparr>)
      else Inl InvalidState)"

definition setExpiry :: "token \<Rightarrow> time \<Rightarrow> error + token" where
  "setExpiry t e =
     (if state t = Empty \<or> state t = Building
      then Inr (t\<lparr>expiry := Some e, state := Building\<rparr>)
      else Inl InvalidState)"

definition encode :: "signer \<Rightarrow> token \<Rightarrow> KeychainKey \<Rightarrow> error + token" where
  "encode sign t key =
     (case (state t, payload t, expiry t) of
        (Building, Some p, Some e) \<Rightarrow>
          Inr (t\<lparr>keyID := Some (keyId key),
                 signature := Some (sign (secret key) (canonical (keyId key) e (marshal p))),
                 trusted := True, state := Encoded\<rparr>)
      | _ \<Rightarrow> Inl InvalidState)"

definition serialized :: "token \<Rightarrow> error + string" where
  "serialized t =
     (case (state t, keyID t, expiry t, payload t, signature t) of
        (Encoded, Some k, Some e, Some p, Some sg) \<Rightarrow> Inr (serialize k e p sg)
      | _ \<Rightarrow> Inl NotEncoded)"

definition readFrom :: "token \<Rightarrow> string \<Rightarrow> error + token" where
  "readFrom t s =
     (if state t \<noteq> Empty then Inl InvalidState
      else case parse s of
        Inl err \<Rightarrow> Inl err
      | Inr (k, e, p, sg) \<Rightarrow>
          Inr (t\<lparr>keyID := Some k, expiry := Some e, rawPayload := p, signature := Some sg,
                 trusted := False, state := Parsed\<rparr>))"

text \<open>\<open>decode\<close> has the token and the key as its only inputs; there is no clock among them.\<close>

definition decode :: "signer \<Rightarrow> token \<Rightarrow> KeychainKey \<Rightarrow> error + token" where
  "decode sign t key =
     (case (state t, keyID t, expiry t, signature t) of
        (Parsed, Some k, Some e, Some sg) \<Rightarrow>
          if verify sign (secret key) (canonical k e (rawPayload t)) sg
          then (case unmarshal (rawPayload t) of
                  Some p \<Rightarrow> Inr (t\<lparr>payload := Some p, trusted := True, state := Trusted\<rparr>)
                | None \<Rightarrow> Inl MalformedToken)
          else Inl InvalidSignature
      | _ \<Rightarrow> Inl InvalidState)"

subsection \<open>Keychain\<close>

text \<open>
  Modelled from the spec: the Keychain (3, 4.4), whose source is missing: an ordered
  collection of keys, the current signing key the one that is not retired.
\<close>

type_synonym Keychain = "KeychainKey list"

definition currentKey :: "Keychain \<Rightarrow> error + KeychainKey" where
  "currentKey kc =
     (case filter (\<lambda>k. \<not> retired k) kc of [] \<Rightarrow> Inl EmptyKeychain | k # ks \<Rightarrow> Inr k)"

definition matchKey :: "Keychain \<Rightarrow> nat \<Rightarrow> error + KeychainKey" where
  "matchKey kc kid =
     (case find (\<lambda>k. keyId k = kid) kc of None \<Rightarrow> Inl KeyNotFound | Some k \<Rightarrow> Inr k)"

definition keyCount :: "Keychain \<Rightarrow> nat" where
  "keyCount kc = length kc"

subsection \<open>The core behind the handlers\<close>

text \<open>
  The modelled core as the package \<open>service\<close> of the handlers.  The handlers write the
  payload and the expiry without an error result and read them as plain values, so a
  refused write leaves the token as it is, an unset payload reads as the empty mapping and
  an unset expiry as the instant 0.  \<open>MatchKey\<close> looks the key identifier of the token up.
\<close>

definition coreService :: "signer \<Rightarrow> Keychain \<Rightarrow> (token, KeychainKey) service" where
  "coreService sign kc =
     \<lparr>newAuthorization = new,
      payloadOf = (\<lambda>t. case payload t of Some p \<Rightarrow> p | None \<Rightarrow> []),
      storePayload = (\<lambda>t m. case setPayload t m of Inr t' \<Rightarrow> t' | Inl err \<Rightarrow> t),
      expires = (\<lambda>t e. case setExpiry t e of Inr t' \<Rightarrow> t' | Inl err \<Rightarrow> t),
      expiryOf = (\<lambda>t. case expiry t of Some e \<Rightarrow> e | None \<Rightarrow> 0),
      encodeWith = encode sign,
      serializedOf = serialized,
      readFromString = readFrom,
      decodeWith = decode sign,
      binKey = currentKey kc,
      matchKeyOf = (\<lambda>t. case keyID t of Some k \<Rightarrow> matchKey kc k | None \<Rightarrow> Inl KeyNotFound),
      keyCountOf = keyCount kc\<rparr>"

subsection \<open>The issue and verify sequences\<close>

text \<open>
  Modelled from the spec: the sequences of section 6.  Issue: payload and expiry are set
  on a new token, which is encoded with the key and serialized.  Verify: the string is
  read into a new token, which is decoded with the key.
\<close>

definition issue :: "signer \<Rightarrow> payload \<Rightarrow> time \<Rightarrow> KeychainKey \<Rightarrow> error + string" where
  "issue sign m e key =
     (case setPayload new m of
        Inl err \<Rightarrow> Inl err
      | Inr t1 \<Rightarrow>
          (case setExpiry t1 e of
             Inl err \<Rightarrow> Inl err
           | Inr t2 \<Rightarrow>
               (case encode sign t2 key of
                  Inl err \<Rightarrow> Inl err
                | Inr t3 \<Rightarrow> serialized t3)))"

definition check :: "signer \<Rightarrow> string \<Rightarrow> KeychainKey \<Rightarrow> error + token" where
  "check sign s key =
     (case readFrom new s of
        Inl err \<Rightarrow> Inl err
      | Inr t \<Rightarrow> decode sign t key)"

section \<open>Order of effects\<close>

text \<open>\<open>before x y tr\<close>: the effect \<open>x\<close> occurs in \<open>tr\<close> before the first \<open>y\<close>.\<close>

definition before :: "event \<Rightarrow> event \<Rightarrow> event list \<Rightarrow> bool" where
  "before x y tr \<longleftrightarrow> x \<in> set (takeWhile (\<lambda>e. e \<noteq> y) tr)"

section \<open>Concrete inputs\<close>

text \<open>
  The inputs at which the theorems below are evaluated.  The signer concatenates secret
  and message; it stands for the keyed hash only when a concrete tag is needed, the
  theorems about the core hold for every signer.  The key and the payload are those
  of the example scenario of the specification.
\<close>

definition concatSigner :: signer where
  "concatSigner sec msg = sec @ msg"

definition key1 :: KeychainKey where
  "key1 = \<lparr>keyId = 1, secret = ''s1'', createdAt = 0, retired = False\<rparr>"

definition key2 :: KeychainKey where
  "key2 = \<lparr>keyId = 2, secret = ''s2'', createdAt = 10, retired = False\<rparr>"

definition uid42 :: payload where
  "uid42 = [(''uid'', ''42'')]"

text \<open>A token of key 1 that expires at the instant 5000, and one signed with another secret.\<close>

definition token5000 :: string where
  "token5000 = serialize 1 5000 uid42 (concatSigner ''s1'' (canonical 1 5000 (marshal uid42)))"

definition forged5000 :: string where
  "forged5000 = serialize 1 5000 uid42 (concatSigner ''xx'' (canonical 1 5000 (marshal uid42)))"

definition parsed5000 :: token where
  "parsed5000 = new\<lparr>keyID := Some 1, expiry := Some 5000, rawPayload := marshal uid42,
     signature := Some (concatSigner ''s1'' (canonical 1 5000 (marshal uid42))),
     trusted := False, state := Parsed\<rparr>"

definition parsedForged5000 :: token where
  "parsedForged5000 = parsed5000\<lparr>signature :=
     Some (concatSigner ''xx'' (canonical 1 5000 (marshal uid42)))\<rparr>"

definition trusted5000 :: token where
  "trusted5000 = parsed5000\<lparr>payload := Some uid42, trusted := True, state := Trusted\<rparr>"

definition demoConfig :: config where
  "demoConfig = \<lparr>AllowCookieAuth = True, HttpOnly = True, Secure = False,
     AuthCookieName = ''auth'', ServicePath = ''/v1'', AuthUserIDKey = ''uid'',
     systemUserID = ''42'', AuthLifetime = 3600, badAuthWaitTime = 2\<rparr>"

definition demoWorld :: "time \<Rightarrow> world" where
  "demoWorld t = \<lparr>timeNow = t, passwordEntry = Inr ''hash'',
     compareHashAndPassword =
       (\<lambda>h pw. if pw = ''secret'' then BcryptNil else ErrMismatchedHashAndPassword),
     jsonMarshal = (\<lambda>authorization. Inr (''{Authorization:'' @ authorization @ ''}'')),
     decodeString =
       (\<lambda>c. if c = ''dTpzZWNyZXQ='' then Some ''u:secret''
             else if c = ''djpzZWNyZXQ='' then Some ''v:secret''
             else if c = ''dTpzZWM6cmV0'' then Some ''u:sec:ret''
             else if c = ''dXNlY3JldA=='' then Some ''usecret''
             else None),
     writeFails = False\<rparr>"

definition demoAPI :: "Keychain \<Rightarrow> time \<Rightarrow> (token, KeychainKey) AdminAPI" where
  "demoAPI kc t = \<lparr>cfg = demoConfig, svc = coreService concatSigner kc, env = demoWorld t\<rparr>"

text \<open>The token that \<open>respondWithAuthorization\<close> issues at the instant 1000.\<close>

definition token4600 :: string where
  "token4600 = serialize 1 4600 uid42 (concatSigner ''s1'' (canonical 1 4600 (marshal uid42)))"

text \<open>Two variants of the API whose \<open>Encode\<close> and \<open>Serialized\<close> fail.\<close>

definition encodeFailsAPI :: "(token, KeychainKey) AdminAPI" where
  "encodeFailsAPI = \<lparr>cfg = demoConfig,
     svc = (coreService concatSigner [key1])\<lparr>encodeWith := (\<lambda>t k. Inl InvalidState)\<rparr>,
     env = demoWorld 1000\<rparr>"

definition serializedFailsAPI :: "(token, KeychainKey) AdminAPI" where
  "serializedFailsAPI = \<lparr>cfg = demoConfig,
     svc = (coreService concatSigner [key1])\<lparr>serializedOf := (\<lambda>t. Inl NotEncoded)\<rparr>,
     env = demoWorld 1000\<rparr>"

definition headerRequest :: "string \<Rightarrow> request" where
  "headerRequest h = \<lparr>authorizationHeader = h, cookieByName = (\<lambda>name. ErrNoCookie)\<rparr>"

definition cookieRequest :: "string \<Rightarrow> request" where
  "cookieRequest v =
     \<lparr>authorizationHeader = [],
      cookieByName = (\<lambda>name. if name = ''auth'' then CookieValue v else ErrNoCookie)\<rparr>"

definition noEffects :: handler where
  "noEffects ctx = []"

section \<open>Properties of the retry loop\<close>

lemma commitTx_goto: "commitTx a = GotoBeginTx \<longleftrightarrow> commitErr a = MySQLError 1213"
  by (simp add: commitTx_def split: commit_err.splits)

lemma setPaymentTx_goto:
  "setPaymentTx a = GotoBeginTx \<Longrightarrow> setErr a = ErrDBLockTimeout \<or> commitErr a = MySQLError 1213"
  by (simp add: setPaymentTx_def commitTx_goto split: if_splits set_err.splits)

lemma txBody_goto:
  "txBody a = GotoBeginTx \<Longrightarrow> setErr a = ErrDBLockTimeout \<or> commitErr a = MySQLError 1213"
  by (auto simp: txBody_def split: if_splits lookup_err.splits dest: setPaymentTx_goto)

lemma txLoop_passes: "retries \<le> maxRetries \<Longrightarrow>
  passes (txLoop db maxRetries retries) \<le> nat (maxRetries - retries) + 1"
proof (induction db maxRetries retries rule: txLoop.induct)
  case (1 db maxRetries retries)
  show ?case
  proof (cases "retries \<ge> maxRetries")
    case True
    then show ?thesis by (simp add: txLoop.simps)
  next
    case False
    show ?thesis
    proof (cases "txBody (db (nat retries))")
      case GotoBeginTx
      with False "1.IH" [OF False GotoBeginTx]
      have "passes (txLoop db maxRetries (retries + 1)) \<le> nat (maxRetries - (retries + 1)) + 1"
        by simp
      with False GotoBeginTx show ?thesis
        by (simp add: txLoop.simps [of db maxRetries retries] Let_def)
    next
      case (Return r rb)
      with False show ?thesis by (simp add: txLoop.simps)
    qed
  qed
qed

lemma txLoop_exhausted:
  "txLoop db maxRetries maxRetries = \<lparr>result = ErrDB, rollback = False, passes = 1\<rparr>"
  by (simp add: txLoop.simps)

lemma txLoop_retry:
  "retries < maxRetries \<Longrightarrow> txBody (db (nat retries)) = GotoBeginTx \<Longrightarrow>
   txLoop db maxRetries retries =
     (txLoop db maxRetries (retries + 1))\<lparr>passes := Suc (passes (txLoop db maxRetries (retries + 1)))\<rparr>"
  by (simp add: txLoop.simps [of db maxRetries retries] Let_def)

text \<open>
  Claim C10.  For every non-negative \<open>TransactionMaxRetries\<close> the transaction loop of
  \<open>InitPayment\<close> terminates (\<open>txLoop\<close> is a total function, its termination proved from
  the measure \<open>maxRetries - retries\<close>) and control passes the label \<open>beginTx\<close> at most
  \<open>TransactionMaxRetries + 1\<close> times.  A pass ends in \<open>goto beginTx\<close> only when
  \<open>SetPaymentTransaction\<close> reported the lock timeout or \<open>Commit\<close> the MySQL error 1213; the
  jump continues with the counter incremented by one; and with the counter at
  \<open>TransactionMaxRetries\<close> the function returns \<open>ErrDB\<close>.
\<close>

theorem InitPayment_terminates_within_maxRetries:
  "0 \<le> maxRetries \<Longrightarrow>
     passes (InitPayment disabled maxRetries db) \<le> nat maxRetries + 1
   \<and> (\<forall>a. txBody a = GotoBeginTx \<longrightarrow>
          setErr a = ErrDBLockTimeout \<or> commitErr a = MySQLError 1213)
   \<and> (\<forall>retries. retries < maxRetries \<and> txBody (db (nat retries)) = GotoBeginTx \<longrightarrow>
          result (txLoop db maxRetries retries) = result (txLoop db maxRetries (retries + 1))
        \<and> passes (txLoop db maxRetries retries) = Suc (passes (txLoop db maxRetries (retries + 1))))
   \<and> result (txLoop db maxRetries maxRetries) = ErrDB"
proof (intro conjI allI impI)
  assume m: "0 \<le> maxRetries"
  from txLoop_passes [of 0 maxRetries db] m
  show "passes (InitPayment disabled maxRetries db) \<le> nat maxRetries + 1"
    by (simp add: InitPayment_def)
next
  fix a assume "txBody a = GotoBeginTx"
  then show "setErr a = ErrDBLockTimeout \<or> commitErr a = MySQLError 1213"
    by (rule txBody_goto)
next
  fix retries
  assume "retries < maxRetries \<and> txBody (db (nat retries)) = GotoBeginTx"
  then have *: "retries < maxRetries" "txBody (db (nat retries)) = GotoBeginTx" by simp_all
  note step = txLoop_retry [of retries maxRetries db, OF *]
  show "result (txLoop db maxRetries retries) = result (txLoop db maxRetries (retries + 1))"
    by (simp add: step)
  show "passes (txLoop db maxRetries retries) = Suc (passes (txLoop db maxRetries (retries + 1)))"
    by (simp add: step)
next
  show "result (txLoop db maxRetries maxRetries) = ErrDB"
    by (simp add: txLoop_exhausted)
qed

theorem InitPayment_terminates_within_maxRetries_witness:
  "(0::int) \<le> 2 \<and> (0::int) < 2 \<and> txBody (lockedDB (nat 0)) = GotoBeginTx
   \<and> setErr (lockedDB (nat 0)) = ErrDBLockTimeout
   \<and> passes (InitPayment False 2 lockedDB) = 3
   \<and> passes (txLoop lockedDB 2 0) = Suc (passes (txLoop lockedDB 2 (0 + 1)))
   \<and> result (InitPayment False 2 lockedDB) = ErrDB"
  using InitPayment_terminates_within_maxRetries [of 2 False lockedDB]
  by (simp add: InitPayment_def txLoop.simps txBody_def setPaymentTx_def lockedDB_def
      lockedAttempt_def)

section \<open>Properties of the modelled core\<close>

subsection \<open>Numbers and bytes survive the codec\<close>

lemma digitValue_digitChar: "d < 10 \<Longrightarrow> digitValue (digitChar d) = Some d"
  by (simp add: digitValue_def digitChar_def)

lemma readDigits_append:
  "readDigits acc (xs @ ys) =
     (case readDigits acc xs of None \<Rightarrow> None | Some a \<Rightarrow> readDigits a ys)"
  by (induction xs arbitrary: acc) (simp_all split: option.splits)

lemma readDigits_showNat: "readDigits 0 (showNat n) = Some n"
proof (induction n rule: showNat.induct)
  case (1 n)
  show ?case
  proof (cases "n < 10")
    case True
    then show ?thesis by (simp add: showNat.simps [of n] digitValue_digitChar)
  next
    case False
    with 1 have "readDigits 0 (showNat (n div 10)) = Some (n div 10)" by simp
    with False show ?thesis
      by (simp add: showNat.simps [of n] readDigits_append digitValue_digitChar)
  qed
qed

lemma showNat_nonempty: "showNat n \<noteq> []"
  by (subst showNat.simps) simp

lemma readNat_showNat: "readNat (showNat n) = Some n"
  by (simp add: readNat_def showNat_nonempty readDigits_showNat)

lemma fieldChar_not_sep:
  "fieldChar c \<Longrightarrow> c \<noteq> CHR ''.'' \<and> c \<noteq> CHR '','' \<and> c \<noteq> CHR ''='' \<and> c \<noteq> CHR ''-''"
  by (auto simp: fieldChar_def)

lemma fieldChar_digitChar: "d < 10 \<Longrightarrow> fieldChar (digitChar d)"
  by (simp add: fieldChar_def digitChar_def)

lemma showNat_chars: "c \<in> set (showNat n) \<Longrightarrow> fieldChar c"
proof (induction n rule: showNat.induct)
  case (1 n)
  then show ?case
    by (subst (asm) (2) showNat.simps) (auto simp: fieldChar_digitChar split: if_splits)
qed

lemma readInt_showInt: "readInt (showInt i) = Some i"
proof (cases "i < 0")
  case True
  then show ?thesis by (simp add: readInt_def showInt_def readNat_showNat)
next
  case False
  obtain c cs where s: "showNat (nat i) = c # cs"
    using showNat_nonempty [of "nat i"] by (cases "showNat (nat i)") auto
  then have "c \<in> set (showNat (nat i))" by simp
  then have "c \<noteq> CHR ''-''" using showNat_chars fieldChar_not_sep by blast
  with False s readNat_showNat [of "nat i"] show ?thesis
    by (simp add: readInt_def showInt_def)
qed

lemma showInt_chars: "c \<in> set (showInt i) \<Longrightarrow> c \<noteq> CHR ''.''"
  by (auto simp: showInt_def dest: showNat_chars fieldChar_not_sep split: if_splits)

lemma hexValue_hexDigit: "d < 16 \<Longrightarrow> hexValue (hexDigit d) = Some d"
  by (simp add: hexValue_def hexDigit_def)

lemma fieldChar_hexDigit: "d < 16 \<Longrightarrow> fieldChar (hexDigit d)"
  by (simp add: fieldChar_def hexDigit_def)

lemma of_char_div_16: "(of_char c :: nat) div 16 < 16"
proof -
  have "(of_char c :: nat) < 256" by (rule nat_of_char_less_256)
  then show ?thesis by (simp add: less_mult_imp_div_less)
qed

lemma hexDecode_hexEncode: "hexDecode (hexEncode bs) = Some bs"
  by (induction bs) (simp_all add: hexValue_hexDigit of_char_div_16)

lemma hexEncode_chars: "c \<in> set (hexEncode bs) \<Longrightarrow> fieldChar c"
  by (induction bs) (auto simp: fieldChar_hexDigit of_char_div_16)

lemma Split_no_sep: "sep \<notin> set f \<Longrightarrow> Split f sep = [f]"
  by (induction f) auto

lemma Split_field: "sep \<notin> set f \<Longrightarrow> Split (f @ sep # rest) sep = f # Split rest sep"
  by (induction f) auto

lemma marshalEntry_no_comma: "CHR '','' \<notin> set (marshalEntry kv)"
  by (auto simp: marshalEntry_def dest: hexEncode_chars fieldChar_not_sep)

lemma unmarshalEntry_marshalEntry: "unmarshalEntry (marshalEntry kv) = Some kv"
proof -
  have "CHR ''='' \<notin> set (hexEncode (fst kv))" "CHR ''='' \<notin> set (hexEncode (snd kv))"
    using hexEncode_chars fieldChar_not_sep by blast+
  then have "Split (marshalEntry kv) (CHR ''='') = [hexEncode (fst kv), hexEncode (snd kv)]"
    by (simp add: marshalEntry_def Split_field Split_no_sep)
  then show ?thesis
    by (simp add: unmarshalEntry_def hexDecode_hexEncode)
qed

lemma marshalEntry_nonempty: "marshalEntry kv \<noteq> []"
  by (simp add: marshalEntry_def)

lemma Split_marshal: "m \<noteq> [] \<Longrightarrow> Split (marshal m) (CHR '','') = map marshalEntry m"
  by (induction m rule: marshal.induct)
    (simp_all add: Split_field Split_no_sep marshalEntry_no_comma)

lemma marshal_nonempty: "m \<noteq> [] \<Longrightarrow> marshal m \<noteq> []"
  by (induction m rule: marshal.induct) (simp_all add: marshalEntry_nonempty)

lemma those_unmarshalEntry: "those (map (unmarshalEntry \<circ> marshalEntry) m) = Some m"
  by (induction m) (simp_all add: unmarshalEntry_marshalEntry)

lemma unmarshal_marshal: "unmarshal (marshal m) = Some m"
proof (cases "m = []")
  case True
  then show ?thesis by (simp add: unmarshal_def)
next
  case False
  then show ?thesis
    by (simp add: unmarshal_def marshal_nonempty Split_marshal those_unmarshalEntry)
qed

lemma canonical_fields:
  "Split (canonical k e p @ CHR ''.'' # hexEncode sg) (CHR ''.'') =
     [showNat k, showInt e, hexEncode p, hexEncode sg]"
proof -
  have "CHR ''.'' \<notin> set (showNat k)" "CHR ''.'' \<notin> set (showInt e)"
    "CHR ''.'' \<notin> set (hexEncode p)" "CHR ''.'' \<notin> set (hexEncode sg)"
    using showNat_chars showInt_chars hexEncode_chars fieldChar_not_sep by blast+
  then show ?thesis
    by (simp add: canonical_def Split_field Split_no_sep)
qed

lemma parse_serialize: "parse (serialize k e m sg) = Inr (k, e, marshal m, sg)"
  by (simp add: parse_def serialize_def canonical_fields readNat_showNat readInt_showInt
      hexDecode_hexEncode)

lemma issue_value:
  "issue sign m e key =
     Inr (serialize (keyId key) e m (sign (secret key) (canonical (keyId key) e (marshal m))))"
  by (simp add: issue_def setPayload_def setExpiry_def new_def encode_def serialized_def)

lemma check_serialize:
  "check sign (serialize k e m (sign (secret key) (canonical k e (marshal m)))) key =
     Inr (new\<lparr>keyID := Some k, expiry := Some e, rawPayload := marshal m,
               signature := Some (sign (secret key) (canonical k e (marshal m))),
               payload := Some m, trusted := True, state := Trusted\<rparr>)"
  by (simp add: check_def readFrom_def parse_serialize decode_def verify_def unmarshal_marshal
      new_def)

text \<open>
  Claim C6.  For every payload, expiry, key and signer: setting payload and expiry on a
  new token, encoding it with the key and serializing it succeeds, and reading the string
  into a new token and decoding it with the same key succeeds and yields the same payload
  and the same expiry, with \<open>trusted\<close> true.
\<close>

theorem decode_encode_roundtrip:
  "\<exists>s t. issue sign m e key = Inr s \<and> check sign s key = Inr t
     \<and> payload t = Some m \<and> expiry t = Some e \<and> trusted t \<and> state t = Trusted"
  by (simp add: issue_value check_serialize)

section \<open>Properties of the handlers\<close>

lemma AuthHandler_AuthStr:
  "authStrOf a r = AuthStr s \<Longrightarrow>
   AuthHandler a success failed r = checkAuthorization a success failed s"
  by (simp add: AuthHandler_def)

lemma check_read_error:
  "readFromString (svc a) (newAuthorization (svc a)) s = Inl err \<Longrightarrow>
   checkAuthorization a success failed s =
     [NewAuthorization, ReadFrom s, Log LvlDebug ''error reading authorization'', ServeFailed]
     @ failed None"
  by (simp add: checkAuthorization_def serveFailed_def)

lemma check_expired:
  "readFromString (svc a) (newAuthorization (svc a)) s = Inr auth \<Longrightarrow>
   expiryOf (svc a) auth < timeNow (env a) \<Longrightarrow>
   checkAuthorization a success failed s =
     [NewAuthorization, ReadFrom s, Expiry, Now, Expiry,
      Log LvlDebug ''authorization expired'', ServeFailed]
     @ failed None"
  by (simp add: checkAuthorization_def serveFailed_def)

lemma check_no_key:
  "readFromString (svc a) (newAuthorization (svc a)) s = Inr auth \<Longrightarrow>
   \<not> expiryOf (svc a) auth < timeNow (env a) \<Longrightarrow>
   matchKeyOf (svc a) auth = Inl err \<Longrightarrow>
   checkAuthorization a success failed s =
     [NewAuthorization, ReadFrom s, Expiry, Now, MatchKey, KeyCount,
      Log LvlDebug ''error retrieving matching key from keychain'', ServeFailed]
     @ failed None"
  by (simp add: checkAuthorization_def serveFailed_def)

lemma check_decode_error:
  "readFromString (svc a) (newAuthorization (svc a)) s = Inr auth \<Longrightarrow>
   \<not> expiryOf (svc a) auth < timeNow (env a) \<Longrightarrow>
   matchKeyOf (svc a) auth = Inr key \<Longrightarrow>
   decodeWith (svc a) auth key = Inl err \<Longrightarrow>
   checkAuthorization a success failed s =
     [NewAuthorization, ReadFrom s, Expiry, Now, MatchKey, Decode,
      Log LvlDebug ''error decoding authorization'', ServeFailed]
     @ failed None"
  by (simp add: checkAuthorization_def serveFailed_def)

lemma check_ok:
  "readFromString (svc a) (newAuthorization (svc a)) s = Inr auth \<Longrightarrow>
   \<not> expiryOf (svc a) auth < timeNow (env a) \<Longrightarrow>
   matchKeyOf (svc a) auth = Inr key \<Longrightarrow>
   decodeWith (svc a) auth key = Inr auth' \<Longrightarrow>
   checkAuthorization a success failed s =
     [NewAuthorization, ReadFrom s, Expiry, Now, MatchKey, Decode,
      SetRequestContextVar (payloadOf (svc a) auth'), ServeSuccess]
     @ success (Some (payloadOf (svc a) auth'))"
  by (simp add: checkAuthorization_def)


lemma AuthHandler_failed_prefix:
  "AuthHandler a success failed r = pre @ ServeFailed # failed None \<Longrightarrow>
   (\<forall>p. SetRequestContextVar p \<notin> set pre) \<Longrightarrow> ServeSuccess \<notin> set pre \<Longrightarrow>
   \<exists>pre. AuthHandler a success failed r = pre @ ServeFailed # failed None
     \<and> (\<forall>p. SetRequestContextVar p \<notin> set pre) \<and> ServeSuccess \<notin> set pre"
  by blast

text \<open>
  Claim C3.  For a request that carries an authorization string, an error of \<open>ReadFrom\<close>,
  of \<open>MatchKey\<close> or of \<open>Decode\<close> makes \<open>AuthHandler\<close> log at debug level, serve the failed
  handler and return; the success handler is not served.  \<open>AuthRequiredHandler\<close> then
  writes the status 401.  (The model of \<open>AuthHandler\<close> has no panic: the code has no
  operation that can panic on these paths.)
\<close>

theorem AuthHandler_verification_failures:
  "authStrOf a r = AuthStr s \<Longrightarrow>
     (\<forall>err. readFromString (svc a) (newAuthorization (svc a)) s = Inl err \<longrightarrow>
        AuthHandler a success failed r =
          [NewAuthorization, ReadFrom s, Log LvlDebug ''error reading authorization'',
           ServeFailed] @ failed None
      \<and> AuthRequiredHandler a success r =
          [NewAuthorization, ReadFrom s, Log LvlDebug ''error reading authorization'',
           ServeFailed, WriteHeader 401])
   \<and> (\<forall>auth err. readFromString (svc a) (newAuthorization (svc a)) s = Inr auth
        \<and> \<not> expiryOf (svc a) auth < timeNow (env a)
        \<and> matchKeyOf (svc a) auth = Inl err \<longrightarrow>
        AuthHandler a success failed r =
          [NewAuthorization, ReadFrom s, Expiry, Now, MatchKey, KeyCount,
           Log LvlDebug ''error retrieving matching key from keychain'', ServeFailed]
          @ failed None
      \<and> AuthRequiredHandler a success r =
          [NewAuthorization, ReadFrom s, Expiry, Now, MatchKey, KeyCount,
           Log LvlDebug ''error retrieving matching key from keychain'', ServeFailed,
           WriteHeader 401])
   \<and> (\<forall>auth key err. readFromString (svc a) (newAuthorization (svc a)) s = Inr auth
        \<and> \<not> expiryOf (svc a) auth < timeNow (env a)
        \<and> matchKeyOf (svc a) auth = Inr key
        \<and> decodeWith (svc a) auth key = Inl err \<longrightarrow>
        AuthHandler a success failed r =
          [NewAuthorization, ReadFrom s, Expiry, Now, MatchKey, Decode,
           Log LvlDebug ''error decoding authorization'', ServeFailed]
          @ failed None
      \<and> AuthRequiredHandler a success r =
          [NewAuthorization, ReadFrom s, Expiry, Now, MatchKey, Decode,
           Log LvlDebug ''error decoding authorization'', ServeFailed, WriteHeader 401])"
  by (simp add: AuthRequiredHandler_def AuthHandler_AuthStr check_read_error check_no_key
      check_decode_error)

text \<open>
  Claim C4.  For a request that carries an authorization string: when \<open>ReadFrom\<close>, the
  expiry comparison, \<open>MatchKey\<close> and \<open>Decode\<close> all succeed, the payload of the decoded token
  is stored in the request context after the \<open>Decode\<close> and the success handler is served
  with it; in every other case the failed handler is served with the context variable
  unset, and nothing was stored and the success handler was not served before.
\<close>

theorem AuthHandler_payload_only_after_decode:
  "authStrOf a r = AuthStr s \<Longrightarrow>
     (\<forall>auth key auth'.
        readFromString (svc a) (newAuthorization (svc a)) s = Inr auth
        \<and> \<not> expiryOf (svc a) auth < timeNow (env a)
        \<and> matchKeyOf (svc a) auth = Inr key
        \<and> decodeWith (svc a) auth key = Inr auth' \<longrightarrow>
        AuthHandler a success failed r =
          [NewAuthorization, ReadFrom s, Expiry, Now, MatchKey, Decode,
           SetRequestContextVar (payloadOf (svc a) auth'), ServeSuccess]
          @ success (Some (payloadOf (svc a) auth')))
   \<and> (\<not> (\<exists>auth key auth'.
        readFromString (svc a) (newAuthorization (svc a)) s = Inr auth
        \<and> \<not> expiryOf (svc a) auth < timeNow (env a)
        \<and> matchKeyOf (svc a) auth = Inr key
        \<and> decodeWith (svc a) auth key = Inr auth') \<longrightarrow>
        (\<exists>pre. AuthHandler a success failed r = pre @ ServeFailed # failed None
           \<and> (\<forall>p. SetRequestContextVar p \<notin> set pre) \<and> ServeSuccess \<notin> set pre))"
proof (intro conjI allI impI)
  assume s: "authStrOf a r = AuthStr s"
  fix auth key auth'
  assume "readFromString (svc a) (newAuthorization (svc a)) s = Inr auth
        \<and> \<not> expiryOf (svc a) auth < timeNow (env a)
        \<and> matchKeyOf (svc a) auth = Inr key
        \<and> decodeWith (svc a) auth key = Inr auth'"
  then show "AuthHandler a success failed r =
          [NewAuthorization, ReadFrom s, Expiry, Now, MatchKey, Decode,
           SetRequestContextVar (payloadOf (svc a) auth'), ServeSuccess]
          @ success (Some (payloadOf (svc a) auth'))"
    by (simp add: AuthHandler_AuthStr [OF s] check_ok)
next
  assume s: "authStrOf a r = AuthStr s"
  assume no: "\<not> (\<exists>auth key auth'.
        readFromString (svc a) (newAuthorization (svc a)) s = Inr auth
        \<and> \<not> expiryOf (svc a) auth < timeNow (env a)
        \<and> matchKeyOf (svc a) auth = Inr key
        \<and> decodeWith (svc a) auth key = Inr auth')"
  let ?goal = "\<exists>pre. AuthHandler a success failed r = pre @ ServeFailed # failed None
           \<and> (\<forall>p. SetRequestContextVar p \<notin> set pre) \<and> ServeSuccess \<notin> set pre"
  show ?goal
  proof (cases "readFromString (svc a) (newAuthorization (svc a)) s")
    case (Inl err)
    show ?thesis
      by (rule AuthHandler_failed_prefix
            [of _ _ _ _ "[NewAuthorization, ReadFrom s, Log LvlDebug ''error reading authorization'']"])
         (simp_all add: AuthHandler_AuthStr [OF s] check_read_error [OF Inl])
  next
    case (Inr auth)
    show ?thesis
    proof (cases "expiryOf (svc a) auth < timeNow (env a)")
      case True
      show ?thesis
        by (rule AuthHandler_failed_prefix
              [of _ _ _ _ "[NewAuthorization, ReadFrom s, Expiry, Now, Expiry,
                 Log LvlDebug ''authorization expired'']"])
           (simp_all add: AuthHandler_AuthStr [OF s] check_expired [OF Inr True])
    next
      case False
      show ?thesis
      proof (cases "matchKeyOf (svc a) auth")
        case (Inl err)
        show ?thesis
          by (rule AuthHandler_failed_prefix
                [of _ _ _ _ "[NewAuthorization, ReadFrom s, Expiry, Now, MatchKey, KeyCount,
                   Log LvlDebug ''error retrieving matching key from keychain'']"])
             (simp_all add: AuthHandler_AuthStr [OF s] check_no_key [OF Inr False Inl])
      next
        case key: (Inr key)
        show ?thesis
        proof (cases "decodeWith (svc a) auth key")
          case (Inl err)
          show ?thesis
            by (rule AuthHandler_failed_prefix
                  [of _ _ _ _ "[NewAuthorization, ReadFrom s, Expiry, Now, MatchKey, Decode,
                     Log LvlDebug ''error decoding authorization'']"])
               (simp_all add: AuthHandler_AuthStr [OF s] check_decode_error [OF Inr False key Inl])
        next
          case ok: (Inr auth')
          with no Inr False key show ?thesis by blast
        qed
      qed
    qed
  qed
qed

text \<open>
  Where the authorization string comes from: the \<open>Authorization\<close> header when it is not
  empty, whatever the cookies are; the cookie named \<open>AuthCookieName\<close> only when the header
  is empty and cookie authentication is allowed.
\<close>

lemma authStrOf_AuthStr_iff:
  "authStrOf a r = AuthStr s \<longleftrightarrow>
     authorizationHeader r \<noteq> [] \<and> s = authorizationHeader r
   \<or> authorizationHeader r = [] \<and> AllowCookieAuth (cfg a)
       \<and> cookieByName r (AuthCookieName (cfg a)) = CookieValue s"
  by (auto simp: authStrOf_def split: cookie_lookup.splits)

lemma AuthHandler_no_string:
  "authorizationHeader r = [] \<Longrightarrow> \<not> AllowCookieAuth (cfg a) \<Longrightarrow>
   AuthHandler a success failed r =
     Log LvlDebug ''missing authorization header'' # ServeFailed # failed None"
  "authorizationHeader r = [] \<Longrightarrow> AllowCookieAuth (cfg a) \<Longrightarrow>
   cookieByName r (AuthCookieName (cfg a)) = ErrNoCookie \<Longrightarrow>
   AuthHandler a success failed r = ServeFailed # failed None"
  "authorizationHeader r = [] \<Longrightarrow> AllowCookieAuth (cfg a) \<Longrightarrow>
   cookieByName r (AuthCookieName (cfg a)) = CookieOther \<Longrightarrow>
   AuthHandler a success failed r =
     [Log LvlWarn ''error retrieving auth cookie'', WriteHeader 500]"
  by (simp_all add: AuthHandler_def authStrOf_def serveFailed_def)

text \<open>
  Claim C1, as amended.  \<open>AuthHandler\<close> takes the authorization string from the
  \<open>Authorization\<close> header or, when the header is empty and cookie authentication is
  allowed, from the cookie; without a string neither \<open>ReadFrom\<close> nor any later step is
  called.  With a string, \<open>ReadFrom\<close> parses it; when it accepts, the expiry is compared
  with the clock right after \<open>ReadFrom\<close>: an expired token is refused there, before any
  call of \<open>MatchKey\<close> or \<open>Decode\<close>; otherwise \<open>MatchKey\<close> is called, then \<open>Decode\<close> with the
  matched key, and only after the successful decode the payload is stored and the success
  handler served.
\<close>

theorem AuthHandler_order:
  "(authStrOf a r = AuthStr s \<longleftrightarrow>
      authorizationHeader r \<noteq> [] \<and> s = authorizationHeader r
    \<or> authorizationHeader r = [] \<and> AllowCookieAuth (cfg a)
        \<and> cookieByName r (AuthCookieName (cfg a)) = CookieValue s)
   \<and> (authorizationHeader r = [] \<and> \<not> AllowCookieAuth (cfg a) \<longrightarrow>
        AuthHandler a success failed r =
          Log LvlDebug ''missing authorization header'' # ServeFailed # failed None)
   \<and> (authorizationHeader r = [] \<and> AllowCookieAuth (cfg a)
        \<and> cookieByName r (AuthCookieName (cfg a)) = ErrNoCookie \<longrightarrow>
        AuthHandler a success failed r = ServeFailed # failed None)
   \<and> (authorizationHeader r = [] \<and> AllowCookieAuth (cfg a)
        \<and> cookieByName r (AuthCookieName (cfg a)) = CookieOther \<longrightarrow>
        AuthHandler a success failed r =
          [Log LvlWarn ''error retrieving auth cookie'', WriteHeader 500])
   \<and> (authStrOf a r = AuthStr s
        \<and> readFromString (svc a) (newAuthorization (svc a)) s = Inr auth \<longrightarrow>
        (expiryOf (svc a) auth < timeNow (env a) \<longrightarrow>
           AuthHandler a success failed r =
             [NewAuthorization, ReadFrom s, Expiry, Now, Expiry,
              Log LvlDebug ''authorization expired'', ServeFailed] @ failed None)
      \<and> (\<forall>key auth'. \<not> expiryOf (svc a) auth < timeNow (env a)
           \<and> matchKeyOf (svc a) auth = Inr key
           \<and> decodeWith (svc a) auth key = Inr auth' \<longrightarrow>
           AuthHandler a success failed r =
             [NewAuthorization, ReadFrom s, Expiry, Now, MatchKey, Decode,
              SetRequestContextVar (payloadOf (svc a) auth'), ServeSuccess]
             @ success (Some (payloadOf (svc a) auth'))
           \<and> before (ReadFrom s) Now (AuthHandler a success failed r)
           \<and> before Now MatchKey (AuthHandler a success failed r)
           \<and> before MatchKey Decode (AuthHandler a success failed r)
           \<and> before Decode ServeSuccess (AuthHandler a success failed r)))"
proof (intro conjI)
  show "authStrOf a r = AuthStr s \<longleftrightarrow>
      authorizationHeader r \<noteq> [] \<and> s = authorizationHeader r
    \<or> authorizationHeader r = [] \<and> AllowCookieAuth (cfg a)
        \<and> cookieByName r (AuthCookieName (cfg a)) = CookieValue s"
    by (rule authStrOf_AuthStr_iff)
qed (simp_all add: AuthHandler_no_string AuthHandler_AuthStr check_expired check_ok before_def)

section \<open>The handlers on the concrete inputs\<close>

lemma demo_svc [simp]:
  "newAuthorization (svc (demoAPI kc t)) = new"
  "readFromString (svc (demoAPI kc t)) = readFrom"
  "decodeWith (svc (demoAPI kc t)) = decode concatSigner"
  "encodeWith (svc (demoAPI kc t)) = encode concatSigner"
  "serializedOf (svc (demoAPI kc t)) = serialized"
  "binKey (svc (demoAPI kc t)) = currentKey kc"
  "expiryOf (svc (demoAPI kc t)) tok = (case expiry tok of Some e \<Rightarrow> e | None \<Rightarrow> 0)"
  "payloadOf (svc (demoAPI kc t)) tok = (case payload tok of Some p \<Rightarrow> p | None \<Rightarrow> [])"
  "matchKeyOf (svc (demoAPI kc t)) tok =
     (case keyID tok of Some k \<Rightarrow> matchKey kc k | None \<Rightarrow> Inl KeyNotFound)"
  "timeNow (env (demoAPI kc t)) = t"
  "cfg (demoAPI kc t) = demoConfig"
  by (simp_all add: demoAPI_def coreService_def demoWorld_def)

lemma demo_authStr [simp]:
  "h \<noteq> [] \<Longrightarrow> authStrOf (demoAPI kc t) (headerRequest h) = AuthStr h"
  "authStrOf (demoAPI kc t) (cookieRequest v) = AuthStr v"
  by (simp_all add: authStrOf_def headerRequest_def cookieRequest_def demoConfig_def)

lemma token5000_nonempty [simp]: "token5000 \<noteq> []" "forged5000 \<noteq> []"
  by (simp_all add: token5000_def forged5000_def serialize_def)

lemma readFrom_token5000 [simp]: "readFrom new token5000 = Inr parsed5000"
  by (simp add: readFrom_def token5000_def parse_serialize parsed5000_def new_def)

lemma readFrom_forged5000 [simp]: "readFrom new forged5000 = Inr parsedForged5000"
  by (simp add: readFrom_def forged5000_def parse_serialize parsedForged5000_def
      parsed5000_def new_def)

lemma readFrom_garbage [simp]: "readFrom new ''garbage'' = Inl MalformedToken"
  by (simp add: readFrom_def new_def parse_def)

lemma parsed5000_fields [simp]:
  "expiry parsed5000 = Some 5000" "keyID parsed5000 = Some 1"
  "expiry parsedForged5000 = Some 5000" "keyID parsedForged5000 = Some 1"
  "payload trusted5000 = Some uid42"
  by (simp_all add: parsed5000_def parsedForged5000_def trusted5000_def)

lemma decode_parsed5000 [simp]: "decode concatSigner parsed5000 key1 = Inr trusted5000"
  by (simp add: decode_def parsed5000_def key1_def verify_def unmarshal_marshal new_def
      trusted5000_def)

lemma decode_forged5000 [simp]:
  "decode concatSigner parsedForged5000 key1 = Inl InvalidSignature"
  by (simp add: decode_def parsedForged5000_def parsed5000_def key1_def verify_def new_def
      concatSigner_def)

lemma matchKey_demo [simp]:
  "matchKey [key1] (Suc 0) = Inr key1" "matchKey [key2] (Suc 0) = Inl KeyNotFound"
  by (simp_all add: matchKey_def key1_def key2_def)

theorem AuthHandler_verification_failures_witness:
  "authStrOf (demoAPI [key1] 1000) (headerRequest ''garbage'') = AuthStr ''garbage''
   \<and> readFrom new ''garbage'' = Inl MalformedToken
   \<and> AuthRequiredHandler (demoAPI [key1] 1000) noEffects (headerRequest ''garbage'') =
       [NewAuthorization, ReadFrom ''garbage'', Log LvlDebug ''error reading authorization'',
        ServeFailed, WriteHeader 401]
   \<and> matchKey [key2] 1 = Inl KeyNotFound
   \<and> AuthRequiredHandler (demoAPI [key2] 1000) noEffects (headerRequest token5000) =
       [NewAuthorization, ReadFrom token5000, Expiry, Now, MatchKey, KeyCount,
        Log LvlDebug ''error retrieving matching key from keychain'', ServeFailed,
        WriteHeader 401]
   \<and> decode concatSigner parsedForged5000 key1 = Inl InvalidSignature
   \<and> AuthRequiredHandler (demoAPI [key1] 1000) noEffects (cookieRequest forged5000) =
       [NewAuthorization, ReadFrom forged5000, Expiry, Now, MatchKey, Decode,
        Log LvlDebug ''error decoding authorization'', ServeFailed, WriteHeader 401]"
  using
    AuthHandler_verification_failures
      [of "demoAPI [key1] 1000" "headerRequest ''garbage''" "''garbage''" noEffects noEffects]
    AuthHandler_verification_failures
      [of "demoAPI [key2] 1000" "headerRequest token5000" token5000 noEffects noEffects]
    AuthHandler_verification_failures
      [of "demoAPI [key1] 1000" "cookieRequest forged5000" forged5000 noEffects noEffects]
  by simp

theorem AuthHandler_payload_only_after_decode_witness:
  "authStrOf (demoAPI [key1] 1000) (headerRequest token5000) = AuthStr token5000
   \<and> AuthHandler (demoAPI [key1] 1000) noEffects noEffects (headerRequest token5000) =
       [NewAuthorization, ReadFrom token5000, Expiry, Now, MatchKey, Decode,
        SetRequestContextVar uid42, ServeSuccess]
   \<and> (\<exists>pre. AuthHandler (demoAPI [key1] 1000) noEffects noEffects (cookieRequest forged5000) =
         pre @ ServeFailed # noEffects None
       \<and> (\<forall>p. SetRequestContextVar p \<notin> set pre) \<and> ServeSuccess \<notin> set pre)"
  using
    AuthHandler_payload_only_after_decode
      [of "demoAPI [key1] 1000" "headerRequest token5000" token5000 noEffects noEffects]
    AuthHandler_payload_only_after_decode
      [of "demoAPI [key1] 1000" "cookieRequest forged5000" forged5000 noEffects noEffects]
  by (simp add: noEffects_def)

lemma demo_cookies [simp]:
  "authorizationHeader (headerRequest h) = h"
  "authorizationHeader (cookieRequest v) = []"
  "cookieByName (headerRequest h) name = ErrNoCookie"
  "cookieByName (cookieRequest v) ''auth'' = CookieValue v"
  by (simp_all add: headerRequest_def cookieRequest_def)

theorem AuthHandler_order_witness:
  "authStrOf (demoAPI [key1] 1000) (headerRequest token5000) = AuthStr token5000
   \<and> authStrOf (demoAPI [key1] 1000) (cookieRequest token5000) = AuthStr token5000
   \<and> AuthHandler ((demoAPI [key1] 1000)\<lparr>cfg := demoConfig\<lparr>AllowCookieAuth := False\<rparr>\<rparr>)
        noEffects noEffects (cookieRequest token5000) =
       [Log LvlDebug ''missing authorization header'', ServeFailed]
   \<and> AuthHandler (demoAPI [key1] 1000) noEffects noEffects (headerRequest []) = [ServeFailed]
   \<and> AuthHandler (demoAPI [key1] 1000) noEffects noEffects
        \<lparr>authorizationHeader = [], cookieByName = (\<lambda>name. CookieOther)\<rparr> =
       [Log LvlWarn ''error retrieving auth cookie'', WriteHeader 500]
   \<and> readFrom new token5000 = Inr parsed5000
   \<and> AuthHandler (demoAPI [key1] 6000) noEffects noEffects (headerRequest token5000) =
       [NewAuthorization, ReadFrom token5000, Expiry, Now, Expiry,
        Log LvlDebug ''authorization expired'', ServeFailed]
   \<and> AuthHandler (demoAPI [key1] 1000) noEffects noEffects (cookieRequest token5000) =
       [NewAuthorization, ReadFrom token5000, Expiry, Now, MatchKey, Decode,
        SetRequestContextVar uid42, ServeSuccess]
   \<and> before Now MatchKey
       (AuthHandler (demoAPI [key1] 1000) noEffects noEffects (cookieRequest token5000))"
proof -
  note expired = AuthHandler_order
    [of "demoAPI [key1] 6000" "headerRequest token5000" token5000 noEffects noEffects parsed5000]
  note valid = AuthHandler_order
    [of "demoAPI [key1] 1000" "cookieRequest token5000" token5000 noEffects noEffects parsed5000]
  note forbidden = AuthHandler_order
    [of "(demoAPI [key1] 1000)\<lparr>cfg := demoConfig\<lparr>AllowCookieAuth := False\<rparr>\<rparr>"
        "cookieRequest token5000" token5000 noEffects noEffects parsed5000]
  note missing = AuthHandler_order
    [of "demoAPI [key1] 1000" "headerRequest []" token5000 noEffects noEffects parsed5000]
  note broken = AuthHandler_order
    [of "demoAPI [key1] 1000" "\<lparr>authorizationHeader = [], cookieByName = (\<lambda>name. CookieOther)\<rparr>"
        token5000 noEffects noEffects parsed5000]
  have 1: "authStrOf (demoAPI [key1] 1000) (headerRequest token5000) = AuthStr token5000"
    and 2: "authStrOf (demoAPI [key1] 1000) (cookieRequest token5000) = AuthStr token5000"
    by simp_all
  from forbidden have 3:
    "AuthHandler ((demoAPI [key1] 1000)\<lparr>cfg := demoConfig\<lparr>AllowCookieAuth := False\<rparr>\<rparr>)
        noEffects noEffects (cookieRequest token5000) =
       [Log LvlDebug ''missing authorization header'', ServeFailed]"
    by (simp add: noEffects_def demoConfig_def)
  from missing have 4:
    "AuthHandler (demoAPI [key1] 1000) noEffects noEffects (headerRequest []) = [ServeFailed]"
    by (simp add: noEffects_def demoConfig_def)
  from broken have 5:
    "AuthHandler (demoAPI [key1] 1000) noEffects noEffects
        \<lparr>authorizationHeader = [], cookieByName = (\<lambda>name. CookieOther)\<rparr> =
       [Log LvlWarn ''error retrieving auth cookie'', WriteHeader 500]"
    by (simp add: demoConfig_def)
  have 6: "readFrom new token5000 = Inr parsed5000" by simp
  from expired have 7:
    "AuthHandler (demoAPI [key1] 6000) noEffects noEffects (headerRequest token5000) =
       [NewAuthorization, ReadFrom token5000, Expiry, Now, Expiry,
        Log LvlDebug ''authorization expired'', ServeFailed]"
    by (simp add: noEffects_def)
  from valid have 8:
    "AuthHandler (demoAPI [key1] 1000) noEffects noEffects (cookieRequest token5000) =
       [NewAuthorization, ReadFrom token5000, Expiry, Now, MatchKey, Decode,
        SetRequestContextVar uid42, ServeSuccess]"
    by (simp add: noEffects_def)
  have 9: "before Now MatchKey
       (AuthHandler (demoAPI [key1] 1000) noEffects noEffects (cookieRequest token5000))"
    by (simp add: 8 before_def)
  from 1 2 3 4 5 6 7 8 9 show ?thesis by (intro conjI)
qed

text \<open>
  Claim C1 as stated fails: on a valid token that has not expired, \<open>AuthHandler\<close> reads
  the clock for the expiry comparison before it calls \<open>MatchKey\<close> and \<open>Decode\<close>, not after.
\<close>

theorem AuthHandler_expiry_after_decode_counterexample:
  "AuthHandler (demoAPI [key1] 1000) noEffects noEffects (headerRequest token5000) =
     [NewAuthorization, ReadFrom token5000, Expiry, Now, MatchKey, Decode,
      SetRequestContextVar uid42, ServeSuccess]
   \<and> \<not> before MatchKey Now
       (AuthHandler (demoAPI [key1] 1000) noEffects noEffects (headerRequest token5000))
   \<and> \<not> before Decode Now
       (AuthHandler (demoAPI [key1] 1000) noEffects noEffects (headerRequest token5000))"
  by (simp add: AuthHandler_AuthStr check_ok [of _ _ parsed5000 key1 trusted5000]
      before_def noEffects_def)

section \<open>Expiry is the caller's check\<close>

text \<open>
  Claim C2.  \<open>decode\<close> has no clock among its inputs: whatever the current time \<open>now\<close>,
  also one after the expiry, a token encoded with the key decodes with the same key and
  its payload is there.  An expired token is refused by the caller: in \<open>AuthHandler\<close> a
  parsed token whose expiry is before the current time goes to the failed handler by the
  comparison, and \<open>MatchKey\<close> and \<open>Decode\<close> are not called.
\<close>

theorem expired_token_decodes_and_caller_rejects:
  "(\<forall>now. e < now \<longrightarrow>
      (\<exists>s t. issue sign m e key = Inr s \<and> check sign s key = Inr t
         \<and> payload t = Some m \<and> expiry t = Some e \<and> trusted t))
   \<and> (authStrOf a r = AuthStr s'
        \<and> readFromString (svc a) (newAuthorization (svc a)) s' = Inr auth
        \<and> expiryOf (svc a) auth < timeNow (env a) \<longrightarrow>
        AuthHandler a success failed r =
          [NewAuthorization, ReadFrom s', Expiry, Now, Expiry,
           Log LvlDebug ''authorization expired'', ServeFailed] @ failed None)"
  by (simp add: issue_value check_serialize AuthHandler_AuthStr check_expired)

lemma issue_token5000: "issue concatSigner uid42 5000 key1 = Inr token5000"
  by (simp add: issue_value token5000_def key1_def)

lemma check_token5000: "check concatSigner token5000 key1 = Inr trusted5000"
  by (simp add: check_def)

theorem expired_token_decodes_and_caller_rejects_witness:
  "(5000::int) < 6000
   \<and> issue concatSigner uid42 5000 key1 = Inr token5000
   \<and> check concatSigner token5000 key1 = Inr trusted5000
   \<and> payload trusted5000 = Some uid42
   \<and> authStrOf (demoAPI [key1] 6000) (headerRequest token5000) = AuthStr token5000
   \<and> readFrom new token5000 = Inr parsed5000
   \<and> expiryOf (svc (demoAPI [key1] 6000)) parsed5000 < timeNow (env (demoAPI [key1] 6000))
   \<and> AuthHandler (demoAPI [key1] 6000) noEffects noEffects (headerRequest token5000) =
       [NewAuthorization, ReadFrom token5000, Expiry, Now, Expiry,
        Log LvlDebug ''authorization expired'', ServeFailed]"
  using expired_token_decodes_and_caller_rejects
    [of 5000 concatSigner uid42 key1 "demoAPI [key1] 6000" "headerRequest token5000" token5000
      parsed5000 noEffects noEffects]
  by (simp add: noEffects_def issue_token5000 check_token5000)

section \<open>Issuing\<close>

lemma respond_key_error:
  "binKey (svc a) = Inl err \<Longrightarrow>
   respondWithAuthorization a =
     [NewAuthorization, PayloadStore (AuthUserIDKey (cfg a)) (systemUserID (cfg a)), Now,
      Expires (timeNow (env a) + AuthLifetime (cfg a)), BinKey,
      Log LvlError ''error retrieving key from keychain'', WriteHeader 500]"
  by (simp add: respondWithAuthorization_def internalServerError_def)

text \<open>
  Claim C7.  \<open>respondWithAuthorization\<close> stores the user id in the payload of a new
  token and sets the expiry, asks the keychain for the key, calls \<open>Encode\<close> with it, then
  \<open>Serialized\<close>, and writes the string: as the value of the cookie when cookie
  authentication is allowed, and inside the JSON body.  When the key retrieval, \<open>Encode\<close>
  or \<open>Serialized\<close> fails it logs an error and writes the status 500, and neither a cookie
  nor a body is written.
\<close>

theorem respondWithAuthorization_sequence:
  "(let auth = expires (svc a)
                 (storePayload (svc a) (newAuthorization (svc a))
                    (mapStore (payloadOf (svc a) (newAuthorization (svc a)))
                       (AuthUserIDKey (cfg a)) (systemUserID (cfg a))))
                 (timeNow (env a) + AuthLifetime (cfg a));
        start = [NewAuthorization, PayloadStore (AuthUserIDKey (cfg a)) (systemUserID (cfg a)),
                 Now, Expires (timeNow (env a) + AuthLifetime (cfg a)), BinKey]
    in
     (\<forall>key auth' authorization body.
        binKey (svc a) = Inr key \<and> encodeWith (svc a) auth key = Inr auth'
        \<and> serializedOf (svc a) auth' = Inr authorization
        \<and> jsonMarshal (env a) authorization = Inr body \<longrightarrow>
        respondWithAuthorization a =
          start @ [Encode, Serialized]
          @ (if AllowCookieAuth (cfg a)
             then [Expiry,
                   SetCookie \<lparr>cName = AuthCookieName (cfg a), cValue = authorization,
                     cPath = ServicePath (cfg a), cExpires = expiryOf (svc a) auth',
                     cHttpOnly = HttpOnly (cfg a), cSecure = Secure (cfg a)\<rparr>]
             else [])
          @ [Write body]
          @ (if writeFails (env a) then [Log LvlError ''error writing HTTP response''] else []))
   \<and> (\<forall>err. binKey (svc a) = Inl err \<longrightarrow>
        respondWithAuthorization a =
          start @ [Log LvlError ''error retrieving key from keychain'', WriteHeader 500])
   \<and> (\<forall>key err. binKey (svc a) = Inr key \<and> encodeWith (svc a) auth key = Inl err \<longrightarrow>
        respondWithAuthorization a =
          start @ [Encode, Log LvlError ''error encoding authorization'', WriteHeader 500])
   \<and> (\<forall>key auth' err. binKey (svc a) = Inr key \<and> encodeWith (svc a) auth key = Inr auth'
        \<and> serializedOf (svc a) auth' = Inl err \<longrightarrow>
        respondWithAuthorization a =
          start @ [Encode, Serialized, Log LvlError ''error serializing authorization'',
                   WriteHeader 500]))"
  unfolding Let_def
  by (intro conjI allI impI)
    (simp_all add: respondWithAuthorization_def writeAuthorization_def internalServerError_def
      Let_def)

lemma demo_cfg [simp]:
  "AuthUserIDKey demoConfig = ''uid''" "systemUserID demoConfig = ''42''"
  "AuthLifetime demoConfig = 3600" "AllowCookieAuth demoConfig" "HttpOnly demoConfig"
  "\<not> Secure demoConfig" "AuthCookieName demoConfig = ''auth''" "ServicePath demoConfig = ''/v1''"
  by (simp_all add: demoConfig_def)

lemma demo_env [simp]:
  "jsonMarshal (env (demoAPI kc t)) authorization = Inr (''{Authorization:'' @ authorization @ ''}'')"
  "\<not> writeFails (env (demoAPI kc t))"
  by (simp_all add: demoAPI_def demoWorld_def)

lemma demo_store [simp]:
  "storePayload (svc (demoAPI kc t)) tok m =
     (case setPayload tok m of Inr t' \<Rightarrow> t' | Inl err \<Rightarrow> tok)"
  "expires (svc (demoAPI kc t)) tok e =
     (case setExpiry tok e of Inr t' \<Rightarrow> t' | Inl err \<Rightarrow> tok)"
  by (simp_all add: demoAPI_def coreService_def)

lemma currentKey_demo [simp]: "currentKey [key1] = Inr key1" "currentKey [] = Inl EmptyKeychain"
  by (simp_all add: currentKey_def key1_def)

lemma respond_demo:
  "respondWithAuthorization (demoAPI [key1] 1000) =
     [NewAuthorization, PayloadStore ''uid'' ''42'', Now, Expires 4600, BinKey, Encode, Serialized,
      Expiry,
      SetCookie \<lparr>cName = ''auth'', cValue = token4600, cPath = ''/v1'', cExpires = 4600,
        cHttpOnly = True, cSecure = False\<rparr>,
      Write (''{Authorization:'' @ token4600 @ ''}'')]"
  by (simp add: respondWithAuthorization_def writeAuthorization_def Let_def
      setPayload_def setExpiry_def new_def encode_def serialized_def key1_def token4600_def
      uid42_def currentKey_def)


lemma respond_no_key:
  "respondWithAuthorization (demoAPI [] 1000) =
     [NewAuthorization, PayloadStore ''uid'' ''42'', Now, Expires 4600, BinKey,
      Log LvlError ''error retrieving key from keychain'', WriteHeader 500]"
  by (simp add: respond_key_error)

lemma broken_svc [simp]:
  "cfg encodeFailsAPI = demoConfig" "cfg serializedFailsAPI = demoConfig"
  "timeNow (env encodeFailsAPI) = 1000" "timeNow (env serializedFailsAPI) = 1000"
  "binKey (svc encodeFailsAPI) = Inr key1" "binKey (svc serializedFailsAPI) = Inr key1"
  "encodeWith (svc encodeFailsAPI) tok key = Inl InvalidState"
  "encodeWith (svc serializedFailsAPI) = encode concatSigner"
  "serializedOf (svc serializedFailsAPI) tok = Inl NotEncoded"
  "newAuthorization (svc serializedFailsAPI) = new"
  "payloadOf (svc serializedFailsAPI) tok = (case payload tok of Some p \<Rightarrow> p | None \<Rightarrow> [])"
  "storePayload (svc serializedFailsAPI) tok m =
     (case setPayload tok m of Inr t' \<Rightarrow> t' | Inl err \<Rightarrow> tok)"
  "expires (svc serializedFailsAPI) tok e =
     (case setExpiry tok e of Inr t' \<Rightarrow> t' | Inl err \<Rightarrow> tok)"
  by (simp_all add: encodeFailsAPI_def serializedFailsAPI_def coreService_def demoWorld_def)

lemma respond_encode_fails:
  "respondWithAuthorization encodeFailsAPI =
     [NewAuthorization, PayloadStore ''uid'' ''42'', Now, Expires 4600, BinKey, Encode,
      Log LvlError ''error encoding authorization'', WriteHeader 500]"
  by (simp add: respondWithAuthorization_def Let_def internalServerError_def)

lemma respond_serialized_fails:
  "respondWithAuthorization serializedFailsAPI =
     [NewAuthorization, PayloadStore ''uid'' ''42'', Now, Expires 4600, BinKey, Encode,
      Serialized, Log LvlError ''error serializing authorization'', WriteHeader 500]"
  by (simp add: respondWithAuthorization_def Let_def internalServerError_def
      setPayload_def setExpiry_def new_def encode_def)

theorem respondWithAuthorization_sequence_witness:
  "binKey (svc (demoAPI [key1] 1000)) = Inr key1
   \<and> respondWithAuthorization (demoAPI [key1] 1000) =
       [NewAuthorization, PayloadStore ''uid'' ''42'', Now, Expires 4600, BinKey, Encode,
        Serialized, Expiry,
        SetCookie \<lparr>cName = ''auth'', cValue = token4600, cPath = ''/v1'', cExpires = 4600,
          cHttpOnly = True, cSecure = False\<rparr>,
        Write (''{Authorization:'' @ token4600 @ ''}'')]
   \<and> binKey (svc (demoAPI [] 1000)) = Inl EmptyKeychain
   \<and> respondWithAuthorization (demoAPI [] 1000) =
       [NewAuthorization, PayloadStore ''uid'' ''42'', Now, Expires 4600, BinKey,
        Log LvlError ''error retrieving key from keychain'', WriteHeader 500]
   \<and> binKey (svc encodeFailsAPI) = Inr key1
   \<and> respondWithAuthorization encodeFailsAPI =
       [NewAuthorization, PayloadStore ''uid'' ''42'', Now, Expires 4600, BinKey, Encode,
        Log LvlError ''error encoding authorization'', WriteHeader 500]
   \<and> binKey (svc serializedFailsAPI) = Inr key1
   \<and> respondWithAuthorization serializedFailsAPI =
       [NewAuthorization, PayloadStore ''uid'' ''42'', Now, Expires 4600, BinKey, Encode,
        Serialized, Log LvlError ''error serializing authorization'', WriteHeader 500]"
  using
    respondWithAuthorization_sequence [of "demoAPI [key1] 1000"]
    respondWithAuthorization_sequence [of "demoAPI [] 1000"]
    respondWithAuthorization_sequence [of encodeFailsAPI]
    respondWithAuthorization_sequence [of serializedFailsAPI]
  by (simp only: respond_demo respond_no_key respond_encode_fails respond_serialized_fails
      demo_svc broken_svc currentKey_demo simp_thms)

section \<open>The empty keychain\<close>

lemma currentKey_all_retired: "\<forall>k\<in>set kc. retired k \<Longrightarrow> currentKey kc = Inl EmptyKeychain"
proof -
  assume "\<forall>k\<in>set kc. retired k"
  then have "filter (\<lambda>k. \<not> retired k) kc = []" by (induction kc) simp_all
  then show ?thesis by (simp add: currentKey_def)
qed

text \<open>
  Claim C8.  A keychain without a signing key (every key retired, or no key at all) makes
  the retrieval of the current key fail with the empty-keychain error; then
  \<open>respondWithAuthorization\<close> logs an error and writes the status 500, and issues nothing:
  no \<open>Encode\<close>, no cookie, no body.  A verification failure, here of \<open>MatchKey\<close>, is logged
  at debug level and goes to the failed handler instead.
\<close>

theorem empty_keychain_is_a_fault:
  "\<forall>k\<in>set kc. retired k \<Longrightarrow>
     currentKey kc = Inl EmptyKeychain
   \<and> (binKey (svc a) = currentKey kc \<longrightarrow>
        respondWithAuthorization a =
          [NewAuthorization, PayloadStore (AuthUserIDKey (cfg a)) (systemUserID (cfg a)), Now,
           Expires (timeNow (env a) + AuthLifetime (cfg a)), BinKey,
           Log LvlError ''error retrieving key from keychain'', WriteHeader 500])
   \<and> (\<forall>s auth err. readFromString (svc a) (newAuthorization (svc a)) s = Inr auth
        \<and> \<not> expiryOf (svc a) auth < timeNow (env a)
        \<and> matchKeyOf (svc a) auth = Inl err \<longrightarrow>
        checkAuthorization a success failed s =
          [NewAuthorization, ReadFrom s, Expiry, Now, MatchKey, KeyCount,
           Log LvlDebug ''error retrieving matching key from keychain'', ServeFailed]
          @ failed None)"
  by (simp add: currentKey_all_retired respond_key_error check_no_key)

theorem empty_keychain_is_a_fault_witness:
  "retired (key1\<lparr>retired := True\<rparr>)
   \<and> currentKey [key1\<lparr>retired := True\<rparr>] = Inl EmptyKeychain
   \<and> binKey (svc (demoAPI [key1\<lparr>retired := True\<rparr>] 1000)) = currentKey [key1\<lparr>retired := True\<rparr>]
   \<and> respondWithAuthorization (demoAPI [key1\<lparr>retired := True\<rparr>] 1000) =
       [NewAuthorization, PayloadStore ''uid'' ''42'', Now, Expires 4600, BinKey,
        Log LvlError ''error retrieving key from keychain'', WriteHeader 500]
   \<and> readFrom new token5000 = Inr parsed5000
   \<and> matchKeyOf (svc (demoAPI [] 1000)) parsed5000 = Inl KeyNotFound
   \<and> checkAuthorization (demoAPI [] 1000) noEffects noEffects token5000 =
       [NewAuthorization, ReadFrom token5000, Expiry, Now, MatchKey, KeyCount,
        Log LvlDebug ''error retrieving matching key from keychain'', ServeFailed]"
  using
    empty_keychain_is_a_fault
      [of "[key1\<lparr>retired := True\<rparr>]" "demoAPI [key1\<lparr>retired := True\<rparr>] 1000" noEffects noEffects]
    empty_keychain_is_a_fault [of "[]" "demoAPI [] 1000" noEffects noEffects]
  by (simp add: noEffects_def matchKey_def key1_def)

section \<open>Basic authentication\<close>

lemma SplitN_Basic:
  "SplitN (CHR ''B'' # CHR ''a'' # CHR ''s'' # CHR ''i'' # CHR ''c'' # CHR '' '' # c) (CHR '' '') 2 =
     [''Basic'', c]"
  by (simp add: numeral_2_eq_2)

lemma SplitN_Basic_only: "SplitN ''Basic'' (CHR '' '') 2 = [''Basic'']"
  by (simp add: numeral_2_eq_2)

lemma length_Split: "length (Split s sep) = Suc (length (filter (\<lambda>c. c = sep) s))"
  by (induction s) (auto split: list.splits)

lemma basicAuth_decoded:
  "authorizationHeader r = ''Basic '' @ c \<Longrightarrow> decodeString (env a) c = Some creds \<Longrightarrow>
   authenticateBasicAuth a r =
     Inr (case Split creds (CHR '':'') of
            [u, pw] \<Rightarrow> authenticateSystemPassword a pw
          | _ \<Rightarrow> requestBasicAuth)"
  by (simp add: authenticateBasicAuth_def SplitN_Basic index_def Let_def
      split: list.splits)

lemma basicAuth_user_password:
  "authorizationHeader r = ''Basic '' @ c \<Longrightarrow>
   decodeString (env a) c = Some (u @ CHR '':'' # pw) \<Longrightarrow> CHR '':'' \<notin> set u \<Longrightarrow>
   authenticateBasicAuth a r =
     Inr (if CHR '':'' \<in> set pw then requestBasicAuth else authenticateSystemPassword a pw)"
proof (cases "CHR '':'' \<in> set pw")
  case False
  assume "authorizationHeader r = ''Basic '' @ c"
    "decodeString (env a) c = Some (u @ CHR '':'' # pw)" "CHR '':'' \<notin> set u"
  with False show ?thesis
    by (simp add: basicAuth_decoded Split_field Split_no_sep)
next
  case True
  then have "filter (\<lambda>c. c = CHR '':'') pw \<noteq> []"
    by (simp add: filter_empty_conv)
  then obtain k ks where "filter (\<lambda>c. c = CHR '':'') pw = k # ks"
    by (cases "filter (\<lambda>c. c = CHR '':'') pw") auto
  then have "2 \<le> length (Split pw (CHR '':''))"
    by (simp add: length_Split)
  then obtain x y zs where "Split pw (CHR '':'') = x # y # zs"
    by (cases "Split pw (CHR '':'')" rule: list.exhaust; cases "tl (Split pw (CHR '':''))") auto
  moreover assume "authorizationHeader r = ''Basic '' @ c"
    "decodeString (env a) c = Some (u @ CHR '':'' # pw)" "CHR '':'' \<notin> set u"
  ultimately show ?thesis using True
    by (simp add: basicAuth_decoded Split_field)
qed

lemma basicAuth_no_colon:
  "authorizationHeader r = ''Basic '' @ c \<Longrightarrow>
   decodeString (env a) c = Some creds \<Longrightarrow> CHR '':'' \<notin> set creds \<Longrightarrow>
   authenticateBasicAuth a r = Inr requestBasicAuth"
  by (simp add: basicAuth_decoded Split_no_sep)

lemma authenticateSystemPassword_entry:
  "passwordEntry (env a) = Inr pwEntry \<Longrightarrow>
   authenticateSystemPassword a pw =
     EntryByNameDB # CompareHashAndPassword pw #
     (case compareHashAndPassword (env a) pwEntry pw of
        ErrMismatchedHashAndPassword \<Rightarrow> [Sleep (badAuthWaitTime (cfg a)), WriteHeader 401]
      | BcryptOther \<Rightarrow> [Log LvlError ''error checking password'', WriteHeader 500]
      | BcryptNil \<Rightarrow> respondWithAuthorization a)"
  by (simp add: authenticateSystemPassword_def)

text \<open>
  Claim C9.  For a header \<open>Basic\<close> followed by credentials that base64-decode to a
  user name, a colon and a password (the user name being what stands before the first
  colon): the response of \<open>authenticateBasicAuth\<close> is that of the password check on the
  password alone when the password has no colon, and the 401 challenge (the header
  \<open>WWW-Authenticate\<close> and the status 401) when it has one; so two user names with the same
  password get the same response.  Decoded credentials without any colon get the 401
  challenge.  The password check compares the stored entry with the password and nothing
  else of the credentials.
\<close>

theorem basic_auth_ignores_username:
  "authorizationHeader r1 = ''Basic '' @ c1 \<Longrightarrow> authorizationHeader r2 = ''Basic '' @ c2 \<Longrightarrow>
   decodeString (env a) c1 = Some (u1 @ CHR '':'' # pw) \<Longrightarrow>
   decodeString (env a) c2 = Some (u2 @ CHR '':'' # pw) \<Longrightarrow>
   CHR '':'' \<notin> set u1 \<Longrightarrow> CHR '':'' \<notin> set u2 \<Longrightarrow>
     authenticateBasicAuth a r1 = authenticateBasicAuth a r2
   \<and> authenticateBasicAuth a r1 =
       Inr (if CHR '':'' \<in> set pw
            then [HeaderSet ''WWW-Authenticate''
                    (''Basic realm='' @ [CHR 0x22] @ ''Authorization'' @ [CHR 0x22]),
                  WriteHeader 401]
            else authenticateSystemPassword a pw)
   \<and> (\<forall>r c creds. authorizationHeader r = ''Basic '' @ c
        \<and> decodeString (env a) c = Some creds \<and> CHR '':'' \<notin> set creds \<longrightarrow>
        authenticateBasicAuth a r =
          Inr [HeaderSet ''WWW-Authenticate''
                 (''Basic realm='' @ [CHR 0x22] @ ''Authorization'' @ [CHR 0x22]),
               WriteHeader 401])
   \<and> (\<forall>pwEntry. passwordEntry (env a) = Inr pwEntry \<longrightarrow>
        authenticateSystemPassword a pw =
          EntryByNameDB # CompareHashAndPassword pw #
          (case compareHashAndPassword (env a) pwEntry pw of
             ErrMismatchedHashAndPassword \<Rightarrow> [Sleep (badAuthWaitTime (cfg a)), WriteHeader 401]
           | BcryptOther \<Rightarrow> [Log LvlError ''error checking password'', WriteHeader 500]
           | BcryptNil \<Rightarrow> respondWithAuthorization a))"
proof (intro conjI allI impI)
  assume h: "authorizationHeader r1 = ''Basic '' @ c1" "authorizationHeader r2 = ''Basic '' @ c2"
    and d: "decodeString (env a) c1 = Some (u1 @ CHR '':'' # pw)"
      "decodeString (env a) c2 = Some (u2 @ CHR '':'' # pw)"
    and n: "CHR '':'' \<notin> set u1" "CHR '':'' \<notin> set u2"
  show "authenticateBasicAuth a r1 = authenticateBasicAuth a r2"
    by (simp only: basicAuth_user_password [OF h(1) d(1) n(1)]
        basicAuth_user_password [OF h(2) d(2) n(2)])
  show "authenticateBasicAuth a r1 =
       Inr (if CHR '':'' \<in> set pw
            then [HeaderSet ''WWW-Authenticate''
                    (''Basic realm='' @ [CHR 0x22] @ ''Authorization'' @ [CHR 0x22]),
                  WriteHeader 401]
            else authenticateSystemPassword a pw)"
    by (simp add: basicAuth_user_password [OF h(1) d(1) n(1)] requestBasicAuth_def)
next
  fix r :: request and c creds
  assume "authorizationHeader r = ''Basic '' @ c
        \<and> decodeString (env a) c = Some creds \<and> CHR '':'' \<notin> set creds"
  then have "authenticateBasicAuth a r = Inr requestBasicAuth"
    by (simp add: basicAuth_no_colon)
  then show "authenticateBasicAuth a r =
          Inr [HeaderSet ''WWW-Authenticate''
                 (''Basic realm='' @ [CHR 0x22] @ ''Authorization'' @ [CHR 0x22]),
               WriteHeader 401]"
    by (simp add: requestBasicAuth_def)
next
  fix pwEntry
  assume "passwordEntry (env a) = Inr pwEntry"
  then show "authenticateSystemPassword a pw =
          EntryByNameDB # CompareHashAndPassword pw #
          (case compareHashAndPassword (env a) pwEntry pw of
             ErrMismatchedHashAndPassword \<Rightarrow> [Sleep (badAuthWaitTime (cfg a)), WriteHeader 401]
           | BcryptOther \<Rightarrow> [Log LvlError ''error checking password'', WriteHeader 500]
           | BcryptNil \<Rightarrow> respondWithAuthorization a)"
    by (rule authenticateSystemPassword_entry)
qed

theorem basic_auth_ignores_username_witness:
  "authorizationHeader (headerRequest ''Basic dTpzZWNyZXQ='') = ''Basic '' @ ''dTpzZWNyZXQ=''
   \<and> decodeString (env (demoAPI [key1] 1000)) ''dTpzZWNyZXQ='' = Some (''u'' @ CHR '':'' # ''secret'')
   \<and> decodeString (env (demoAPI [key1] 1000)) ''djpzZWNyZXQ='' = Some (''v'' @ CHR '':'' # ''secret'')
   \<and> CHR '':'' \<notin> set ''u'' \<and> CHR '':'' \<notin> set ''v''
   \<and> authenticateBasicAuth (demoAPI [key1] 1000) (headerRequest ''Basic dTpzZWNyZXQ='') =
       authenticateBasicAuth (demoAPI [key1] 1000) (headerRequest ''Basic djpzZWNyZXQ='')
   \<and> passwordEntry (env (demoAPI [key1] 1000)) = Inr ''hash''
   \<and> authenticateBasicAuth (demoAPI [key1] 1000) (headerRequest ''Basic dTpzZWNyZXQ='') =
       Inr (EntryByNameDB # CompareHashAndPassword ''secret''
            # respondWithAuthorization (demoAPI [key1] 1000))
   \<and> decodeString (env (demoAPI [key1] 1000)) ''dTpzZWM6cmV0'' = Some (''u'' @ CHR '':'' # ''sec:ret'')
   \<and> authenticateBasicAuth (demoAPI [key1] 1000) (headerRequest ''Basic dTpzZWM6cmV0'') =
       Inr [HeaderSet ''WWW-Authenticate''
              (''Basic realm='' @ [CHR 0x22] @ ''Authorization'' @ [CHR 0x22]),
            WriteHeader 401]
   \<and> decodeString (env (demoAPI [key1] 1000)) ''dXNlY3JldA=='' = Some ''usecret''
   \<and> CHR '':'' \<notin> set ''usecret''
   \<and> authenticateBasicAuth (demoAPI [key1] 1000) (headerRequest ''Basic dXNlY3JldA=='') =
       Inr [HeaderSet ''WWW-Authenticate''
              (''Basic realm='' @ [CHR 0x22] @ ''Authorization'' @ [CHR 0x22]),
            WriteHeader 401]"
proof -
  let ?challenge = "[HeaderSet ''WWW-Authenticate''
              (''Basic realm='' @ [CHR 0x22] @ ''Authorization'' @ [CHR 0x22]),
            WriteHeader 401]"
  have h1: "authorizationHeader (headerRequest ''Basic dTpzZWNyZXQ='') = ''Basic '' @ ''dTpzZWNyZXQ=''"
    and h2: "authorizationHeader (headerRequest ''Basic djpzZWNyZXQ='') = ''Basic '' @ ''djpzZWNyZXQ=''"
    and h3: "authorizationHeader (headerRequest ''Basic dXNlY3JldA=='') = ''Basic '' @ ''dXNlY3JldA==''"
    and h4: "authorizationHeader (headerRequest ''Basic dTpzZWM6cmV0'') = ''Basic '' @ ''dTpzZWM6cmV0''"
    by (simp_all add: headerRequest_def)
  have d1: "decodeString (env (demoAPI [key1] 1000)) ''dTpzZWNyZXQ='' = Some (''u'' @ CHR '':'' # ''secret'')"
    and d2: "decodeString (env (demoAPI [key1] 1000)) ''djpzZWNyZXQ='' = Some (''v'' @ CHR '':'' # ''secret'')"
    and d3: "decodeString (env (demoAPI [key1] 1000)) ''dXNlY3JldA=='' = Some ''usecret''"
    and d4: "decodeString (env (demoAPI [key1] 1000)) ''dTpzZWM6cmV0'' = Some (''u'' @ CHR '':'' # ''sec:ret'')"
    by (simp_all add: demoAPI_def demoWorld_def)
  have n1: "CHR '':'' \<notin> set ''u''" and n2: "CHR '':'' \<notin> set ''v''"
    and n3: "CHR '':'' \<notin> set ''usecret''" and n4: "CHR '':'' \<notin> set ''secret''"
    and n5: "CHR '':'' \<in> set ''sec:ret''"
    by simp_all
  have e: "passwordEntry (env (demoAPI [key1] 1000)) = Inr ''hash''"
    and c: "compareHashAndPassword (env (demoAPI [key1] 1000)) ''hash'' ''secret'' = BcryptNil"
    by (simp_all add: demoAPI_def demoWorld_def)
  note w = basic_auth_ignores_username [OF h1 h2 d1 d2 n1 n2]
  note w' = basic_auth_ignores_username [OF h4 h4 d4 d4 n1 n1]
  from w have same: "authenticateBasicAuth (demoAPI [key1] 1000) (headerRequest ''Basic dTpzZWNyZXQ='') =
       authenticateBasicAuth (demoAPI [key1] 1000) (headerRequest ''Basic djpzZWNyZXQ='')"
    by (rule conjunct1)
  from w have "authenticateBasicAuth (demoAPI [key1] 1000) (headerRequest ''Basic dTpzZWNyZXQ='') =
       Inr (if CHR '':'' \<in> set ''secret'' then ?challenge
            else authenticateSystemPassword (demoAPI [key1] 1000) ''secret'')"
    by (elim conjE)
  also have "\<dots> = Inr (authenticateSystemPassword (demoAPI [key1] 1000) ''secret'')"
    by simp
  finally have pw: "authenticateBasicAuth (demoAPI [key1] 1000) (headerRequest ''Basic dTpzZWNyZXQ='') =
       Inr (authenticateSystemPassword (demoAPI [key1] 1000) ''secret'')" .
  from w have "\<forall>pwEntry. passwordEntry (env (demoAPI [key1] 1000)) = Inr pwEntry \<longrightarrow>
        authenticateSystemPassword (demoAPI [key1] 1000) ''secret'' =
          EntryByNameDB # CompareHashAndPassword ''secret'' #
          (case compareHashAndPassword (env (demoAPI [key1] 1000)) pwEntry ''secret'' of
             ErrMismatchedHashAndPassword \<Rightarrow>
               [Sleep (badAuthWaitTime (cfg (demoAPI [key1] 1000))), WriteHeader 401]
           | BcryptOther \<Rightarrow> [Log LvlError ''error checking password'', WriteHeader 500]
           | BcryptNil \<Rightarrow> respondWithAuthorization (demoAPI [key1] 1000))"
    by (elim conjE)
  with e have "authenticateSystemPassword (demoAPI [key1] 1000) ''secret'' =
          EntryByNameDB # CompareHashAndPassword ''secret'' #
          (case compareHashAndPassword (env (demoAPI [key1] 1000)) ''hash'' ''secret'' of
             ErrMismatchedHashAndPassword \<Rightarrow>
               [Sleep (badAuthWaitTime (cfg (demoAPI [key1] 1000))), WriteHeader 401]
           | BcryptOther \<Rightarrow> [Log LvlError ''error checking password'', WriteHeader 500]
           | BcryptNil \<Rightarrow> respondWithAuthorization (demoAPI [key1] 1000))"
    by blast
  then have check: "authenticateSystemPassword (demoAPI [key1] 1000) ''secret'' =
          EntryByNameDB # CompareHashAndPassword ''secret''
          # respondWithAuthorization (demoAPI [key1] 1000)"
    by (simp only: c bcrypt_err.case)
  from pw have full: "authenticateBasicAuth (demoAPI [key1] 1000) (headerRequest ''Basic dTpzZWNyZXQ='') =
       Inr (EntryByNameDB # CompareHashAndPassword ''secret''
            # respondWithAuthorization (demoAPI [key1] 1000))"
    by (simp only: check)
  from w' have "authenticateBasicAuth (demoAPI [key1] 1000) (headerRequest ''Basic dTpzZWM6cmV0'') =
       Inr (if CHR '':'' \<in> set ''sec:ret'' then ?challenge
            else authenticateSystemPassword (demoAPI [key1] 1000) ''sec:ret'')"
    by (elim conjE)
  also have "\<dots> = Inr ?challenge"
    by simp
  finally have colon: "authenticateBasicAuth (demoAPI [key1] 1000) (headerRequest ''Basic dTpzZWM6cmV0'') =
       Inr ?challenge" .
  from w have "\<forall>r c creds. authorizationHeader r = ''Basic '' @ c
        \<and> decodeString (env (demoAPI [key1] 1000)) c = Some creds \<and> CHR '':'' \<notin> set creds \<longrightarrow>
        authenticateBasicAuth (demoAPI [key1] 1000) r = Inr ?challenge"
    by (elim conjE)
  with h3 d3 n3 have nc: "authenticateBasicAuth (demoAPI [key1] 1000) (headerRequest ''Basic dXNlY3JldA=='') =
       Inr ?challenge"
    by blast
  from h1 d1 d2 n1 n2 same e full d4 colon d3 n3 nc show ?thesis
    by (intro conjI)
qed

text \<open>
  \<open>authenticateBasicAuth\<close> panics on exactly one header value: the scheme \<open>Basic\<close> with
  nothing after it.
\<close>

lemma SplitN_two:
  "SplitN s sep 2 =
     (if sep \<in> set s then [takeWhile (\<lambda>c. c \<noteq> sep) s, tl (dropWhile (\<lambda>c. c \<noteq> sep) s)]
      else [s])"
  by (induction s) (auto simp: numeral_2_eq_2)

lemma authenticateBasicAuth_panics_iff:
  "authenticateBasicAuth a r = Inl p \<longleftrightarrow>
     authorizationHeader r = ''Basic'' \<and> p = IndexOutOfRange 1 1"
proof (cases "CHR '' '' \<in> set (authorizationHeader r)")
  case True
  then have "authorizationHeader r \<noteq> ''Basic''" by auto
  with True show ?thesis
    by (auto simp: authenticateBasicAuth_def SplitN_two index_def Let_def
        split: option.splits)
next
  case False
  then show ?thesis
    by (auto simp: authenticateBasicAuth_def SplitN_two index_def Let_def
        split: option.splits)
qed

text \<open>
  Claim C5 fails on the code.  The header \<open>Authorization: Basic\<close>, without credentials,
  splits into the single part \<open>Basic\<close>; \<open>parts[0]\<close> passes the test and \<open>parts[1]\<close> is
  out of range, so \<open>authenticateBasicAuth\<close> panics.  \<open>Handler.ServeHTTP\<close> recovers the
  panic and logs it at level \<open>Crit\<close>; no 401 challenge is written.  (\<open>ServeHTTP\<close> is
  applied to the handler directly here: the router and \<open>GetAuthorization\<close>, which sets the
  content type and selects the handler by the path, are left out.)
\<close>

theorem authenticateBasicAuth_panics_on_bare_scheme:
  "authenticateBasicAuth a (headerRequest ''Basic'') = Inl (IndexOutOfRange 1 1)
   \<and> ServeHTTP (authenticateBasicAuth a (headerRequest ''Basic'')) =
       [SetRequestContext, Clear, Log LvlCrit ''panic on serving HTTP'']"
  by (simp add: authenticateBasicAuth_def headerRequest_def SplitN_Basic_only index_def
      ServeHTTP_def)

end
